theory Spec2Isabelle
  imports Main "HOL-Library.Sublist" "HOL-Library.AList"
begin

section \<open>Request assembly of pactum: \<open>src/helpers/requestProcessor.js\<close>\<close>

text \<open>
  The module exports one function, \<open>process(request)\<close>, which runs eight steps over a
  mutable request object and reads the process-wide defaults in \<open>config.request\<close>.
  The embedding below keeps the steps, their order and their names. JavaScript objects
  that the steps write to through a reference (the header objects) live in an explicit
  heap, so that sharing between the request and the defaults is visible. Every call
  that can throw returns a sum, with the exception on the left.
\<close>

subsection \<open>JavaScript values\<close>

text \<open>
  Numbers are restricted to the safe integers (printed in plain decimal by
  \<open>Number.prototype.toString\<close>) and \<open>NaN\<close>, which matters because it is falsy.
\<close>

datatype jsval =
    JUndefined
  | JNull
  | JBool bool
  | JNum int
  | JNaN
  | JStr string
  | JObj "(string \<times> jsval) list"
  | JArr "jsval list"
  | JBuffer string

text \<open>ToBoolean: what \<open>if (v)\<close>, \<open>!v\<close> and \<open>v || w\<close> test.\<close>

fun truthy :: "jsval \<Rightarrow> bool" where
  "truthy JUndefined = False"
| "truthy JNull = False"
| "truthy (JBool b) = b"
| "truthy (JNum n) = (n \<noteq> 0)"
| "truthy JNaN = False"
| "truthy (JStr s) = (s \<noteq> [])"
| "truthy (JObj ps) = True"
| "truthy (JArr vs) = True"
| "truthy (JBuffer bs) = True"

fun typeof :: "jsval \<Rightarrow> string" where
  "typeof JUndefined = ''undefined''"
| "typeof JNull = ''object''"
| "typeof (JBool b) = ''boolean''"
| "typeof (JNum n) = ''number''"
| "typeof JNaN = ''number''"
| "typeof (JStr s) = ''string''"
| "typeof (JObj ps) = ''object''"
| "typeof (JArr vs) = ''object''"
| "typeof (JBuffer bs) = ''object''"

definition digit_char :: "nat \<Rightarrow> char" where
  "digit_char d = ''0123456789'' ! d"

fun string_of_nat :: "nat \<Rightarrow> string" where
  "string_of_nat n =
     (if n < 10 then [digit_char n] else string_of_nat (n div 10) @ [digit_char (n mod 10)])"

declare string_of_nat.simps [simp del]

definition string_of_int :: "int \<Rightarrow> string" where
  "string_of_int i = (if i < 0 then CHR ''-'' # string_of_nat (nat (- i)) else string_of_nat (nat i))"

text \<open>
  \<open>v.toString()\<close> for the two types on which \<open>setBody\<close> calls it. The other
  constructors are never passed; they are returned as the empty string to keep the
  function total.
\<close>

fun toString :: "jsval \<Rightarrow> string" where
  "toString (JNum n) = string_of_int n"
| "toString JNaN = ''NaN''"
| "toString (JBool b) = (if b then ''true'' else ''false'')"
| "toString v = []"

subsection \<open>String.prototype.startsWith and String.prototype.replace\<close>

definition startsWith :: "string \<Rightarrow> string \<Rightarrow> bool" where
  "startsWith s p = prefix p s"

text \<open>
  \<open>split_first pat s\<close> cuts \<open>s\<close> around the leftmost occurrence of \<open>pat\<close>
  (\<open>String.prototype.indexOf\<close>), or returns \<open>None\<close> when there is none.
\<close>

fun split_first :: "string \<Rightarrow> string \<Rightarrow> (string \<times> string) option" where
  "split_first pat [] = (if pat = [] then Some ([], []) else None)"
| "split_first pat (c # cs) =
     (if prefix pat (c # cs) then Some ([], drop (length pat) (c # cs))
      else (case split_first pat cs of
              None \<Rightarrow> None
            | Some (pre, post) \<Rightarrow> Some (c # pre, post)))"

text \<open>
  GetSubstitution of ECMAScript for a string pattern: there are no capture groups, so
  of the dollar patterns only \<open>$$\<close>, \<open>$&\<close>, \<open>$`\<close> and \<open>$'\<close> are expanded; a dollar
  followed by anything else stands for itself.
\<close>

fun getSubstitution :: "string \<Rightarrow> string \<Rightarrow> string \<Rightarrow> string \<Rightarrow> string" where
  "getSubstitution matched pre post [] = []"
| "getSubstitution matched pre post [c] = [c]"
| "getSubstitution matched pre post (c # d # rest) =
     (if c = CHR ''$'' \<and> d = CHR ''$'' then CHR ''$'' # getSubstitution matched pre post rest
      else if c = CHR ''$'' \<and> d = CHR ''&'' then matched @ getSubstitution matched pre post rest
      else if c = CHR ''$'' \<and> d = CHR ''`'' then pre @ getSubstitution matched pre post rest
      else if c = CHR ''$'' \<and> d = CHR 0x27 then post @ getSubstitution matched pre post rest
      else c # getSubstitution matched pre post (d # rest))"

text \<open>
  \<open>str.replace(searchString, replaceValue)\<close> with a string pattern: only the leftmost
  occurrence is replaced.
\<close>

definition String_replace :: "string \<Rightarrow> string \<Rightarrow> string \<Rightarrow> string" where
  "String_replace str searchString replaceValue =
     (case split_first searchString str of
        None \<Rightarrow> str
      | Some (pre, post) \<Rightarrow> pre @ getSubstitution searchString pre post replaceValue @ post)"

subsection \<open>Header objects\<close>

text \<open>
  A header object is the list of its own enumerable properties in enumeration order,
  with string values. The operator \<open>in\<close> also sees the properties that a plain object
  inherits from \<open>Object.prototype\<close>. An assignment \<open>o[k] = v\<close> updates or appends an
  own property, except that for the inherited accessor \<open>__proto__\<close> a string value
  is dropped by the setter.
\<close>

type_synonym obj = "(string \<times> string) list"

definition Object_prototype_names :: "string list" where
  "Object_prototype_names =
     [''constructor'', ''__defineGetter__'', ''__defineSetter__'', ''hasOwnProperty'',
      ''__lookupGetter__'', ''__lookupSetter__'', ''isPrototypeOf'',
      ''propertyIsEnumerable'', ''toString'', ''valueOf'', ''__proto__'',
      ''toLocaleString'']"

definition own_keys :: "obj \<Rightarrow> string list" where
  "own_keys ob = map fst ob"

definition js_in :: "string \<Rightarrow> obj \<Rightarrow> bool" where
  "js_in k ob = (k \<in> set (own_keys ob) \<or> k \<in> set Object_prototype_names)"

definition js_put :: "obj \<Rightarrow> string \<Rightarrow> string \<Rightarrow> obj" where
  "js_put ob k v =
     (if k = ''__proto__'' \<and> k \<notin> set (own_keys ob) then ob else AList.update k v ob)"

subsection \<open>Exceptions\<close>

text \<open>
  The exceptions by their class: the two that this module's own calls into the
  language and into Node raise, and any other one by its name.
\<close>

datatype js_exception = TypeError | URIError | Thrown string

subsection \<open>The request, the defaults and the machine state\<close>

type_synonym addr = nat

text \<open>
  What the two calls on the form-data object give: \<open>getBuffer()\<close>, which throws when
  a part of the form cannot be turned into a buffer, and \<open>getHeaders()\<close>, which returns
  a fresh object.
\<close>

record multipart =
  getBuffer :: "js_exception + string"
  getHeaders :: obj

text \<open>
  The fields of the request that \<open>process\<close> reads or writes. The type of \<open>url\<close> is a
  parameter: the request that comes in has an arbitrary value there (\<open>jsval request\<close>);
  \<open>setBaseUrl\<close> throws unless it is a string, so the later steps work on a
  \<open>string request\<close>. \<open>pathParams\<close> holds each name once, in the order of
  \<open>Object.keys\<close>, with the value as the string that \<open>replace\<close> coerces it to.
  \<open>headers\<close> is \<open>None\<close> for \<open>undefined\<close> and otherwise the address of the header object.
\<close>

record 'u request =
  url :: 'u
  pathParams :: "(string \<times> string) list option"
  queryParams :: "(string \<times> string) list option"
  headers :: "addr option"
  data :: jsval
  body :: jsval
  multiPartFormData :: "multipart option"
  followRedirects :: jsval
  timeout :: jsval
  path :: jsval
  baseUrl :: jsval

text \<open>
  \<open>config.request\<close>. The module \<open>src/config.js\<close> is not among the sources; its four
  fields are typed as the specification's configuration surface types them: base URL
  (string), default timeout (integer), default headers (mapping), default
  follow-redirects (boolean).
\<close>

record config =
  config_baseUrl :: string
  config_timeout :: int
  config_headers :: addr
  config_followRedirects :: bool

record 'u state =
  heap :: "addr \<Rightarrow> obj"
  nxt :: addr
  cfg :: config
  req :: "'u request"

text \<open>The same request with another value as its URL, and the same state with another request.\<close>

definition with_url :: "'a request \<Rightarrow> 'b \<Rightarrow> 'b request" where
  "with_url r u =
     \<lparr>url = u, pathParams = pathParams r, queryParams = queryParams r, headers = headers r,
      data = data r, body = body r, multiPartFormData = multiPartFormData r,
      followRedirects = followRedirects r, timeout = timeout r, path = path r,
      baseUrl = baseUrl r\<rparr>"

definition with_req :: "'a state \<Rightarrow> 'b request \<Rightarrow> 'b state" where
  "with_req s r = \<lparr>heap = heap s, nxt = nxt s, cfg = cfg s, req = r\<rparr>"

text \<open>Allocation of a new object: the next unused address.\<close>

definition alloc :: "obj \<Rightarrow> 'u state \<Rightarrow> addr \<times> 'u state" where
  "alloc ob s = (nxt s, s\<lparr>heap := (heap s)(nxt s := ob), nxt := Suc (nxt s)\<rparr>)"

text \<open>The request's header object, empty when \<open>request.headers\<close> is undefined.\<close>

definition request_headers :: "'u state \<Rightarrow> obj" where
  "request_headers s = (case headers (req s) of None \<Rightarrow> [] | Some a \<Rightarrow> heap s a)"

definition default_headers :: "'u state \<Rightarrow> obj" where
  "default_headers s = heap s (config_headers (cfg s))"

subsection \<open>External collaborators\<close>

text \<open>
  \<open>url.parse\<close> of Node is a parameter of the model: a function from the URL string to
  either the exception it throws or the three components that \<open>setBaseUrl\<close> reads,
  each of which may be \<open>null\<close>. On an argument that is not a string it throws
  \<open>TypeError\<close>; that case is written out in \<open>setBaseUrl\<close>.
\<close>

record parsed_url =
  protocol :: "string option"
  host :: "string option"
  pathname :: "string option"

text \<open>A template literal renders \<open>null\<close> as the four characters \<open>null\<close>.\<close>

definition template_string :: "string option \<Rightarrow> string" where
  "template_string v = (case v of None \<Rightarrow> ''null'' | Some s \<Rightarrow> s)"

definition nullable :: "string option \<Rightarrow> jsval" where
  "nullable v = (case v of None \<Rightarrow> JNull | Some s \<Rightarrow> JStr s)"

text \<open>
  Modelled from the spec: \<open>helper.getPlainQuery\<close> (\<open>src/helpers/helper.js\<close> is not among
  the sources). The specification says that the accumulated query-parameter mapping is
  flattened into a canonical query string; here \<open>name=value\<close> pairs joined by \<open>&\<close>,
  and the empty string when there are none. The steps below take the serialiser as a
  parameter; this definition is the instance used in the examples.
\<close>

fun join_query :: "(string \<times> string) list \<Rightarrow> string" where
  "join_query [] = []"
| "join_query [(k, v)] = k @ ''='' @ v"
| "join_query ((k, v) # p # ps) = k @ ''='' @ v @ ''&'' @ join_query (p # ps)"

definition getPlainQuery :: "(string \<times> string) list option \<Rightarrow> string" where
  "getPlainQuery q = (case q of None \<Rightarrow> [] | Some ps \<Rightarrow> join_query ps)"

text \<open>
  The data processor (\<open>src/helpers/dataProcessor.js\<close> is not among the sources) is a
  parameter: its three functions that \<open>process\<close> calls, over tables of a type \<open>'p\<close>
  of its own. \<open>processMaps\<close> and \<open>processTemplates\<close> take no argument and work on the
  tables; \<open>processData\<close> is given the request and returns the request to go on with,
  and since it walks the whole request it is given the state. Each of them may throw.
\<close>

record 'p processor =
  processMaps :: "'p \<Rightarrow> js_exception + 'p"
  processTemplates :: "'p \<Rightarrow> js_exception + 'p"
  processData :: "'p \<Rightarrow> jsval state \<Rightarrow> js_exception + 'p \<times> jsval state"

subsection \<open>The steps\<close>

text \<open>Lines 9 to 11.\<close>

definition prepare ::
  "'p processor \<Rightarrow> 'p \<times> jsval state \<Rightarrow> js_exception + 'p \<times> jsval state" where
  "prepare processor ts =
     (case processMaps processor (fst ts) of
        Inl e \<Rightarrow> Inl e
      | Inr t1 \<Rightarrow>
          (case processTemplates processor t1 of
             Inl e \<Rightarrow> Inl e
           | Inr t2 \<Rightarrow> processData processor t2 (snd ts)))"

text \<open>Lines 26 to 28: the URL after the base-URL test.\<close>

definition url_with_base :: "config \<Rightarrow> string \<Rightarrow> string" where
  "url_with_base c u =
     (if config_baseUrl c \<noteq> [] \<and> \<not> startsWith u ''http'' then config_baseUrl c @ u else u)"

text \<open>
  \<open>setBaseUrl\<close>. When \<open>request.url\<close> is not a string, line 26 throws \<open>TypeError\<close> at
  \<open>request.url.startsWith\<close> if a base URL is configured, and otherwise \<open>url.parse\<close>
  throws \<open>TypeError\<close> at line 29.
\<close>

definition setBaseUrl ::
  "(string \<Rightarrow> js_exception + parsed_url) \<Rightarrow> jsval state \<Rightarrow> js_exception + string state" where
  "setBaseUrl parse s =
     (case url (req s) of
        JStr u0 \<Rightarrow>
          (let u = url_with_base (cfg s) u0 in
           case parse u of
             Inl e \<Rightarrow> Inl e
           | Inr p \<Rightarrow>
               Inr (with_req s ((with_url (req s) u)
                      \<lparr>path := nullable (pathname p),
                       baseUrl := JStr (template_string (protocol p) @ ''//''
                                        @ template_string (host p))\<rparr>)))
      | _ \<Rightarrow> Inl TypeError)"

definition placeholder :: "string \<Rightarrow> string" where
  "placeholder name = ''{'' @ name @ ''}''"

definition substitute :: "string \<Rightarrow> string \<times> string \<Rightarrow> string" where
  "substitute u kv = String_replace u (placeholder (fst kv)) (snd kv)"

definition setPathParams :: "string state \<Rightarrow> string state" where
  "setPathParams s =
     (case pathParams (req s) of
        None \<Rightarrow> s
      | Some ps \<Rightarrow> s\<lparr>req := (req s)\<lparr>url := foldl substitute (url (req s)) ps\<rparr>\<rparr>)"

definition setQueryParams ::
  "((string \<times> string) list option \<Rightarrow> string) \<Rightarrow> string state \<Rightarrow> string state" where
  "setQueryParams plainQuery s =
     (let query = plainQuery (queryParams (req s)) in
      if query \<noteq> [] then s\<lparr>req := (req s)\<lparr>url := url (req s) @ ''?'' @ query\<rparr>\<rparr> else s)"

text \<open>
  One turn of the loop of \<open>setHeaders\<close> for the property \<open>prop\<close> of the defaults, the
  request's header object being at address \<open>a\<close>. The default's value is read from the
  heap at that moment.
\<close>

definition add_default_header :: "addr \<Rightarrow> 'u state \<Rightarrow> string \<Rightarrow> 'u state" where
  "add_default_header a s prop =
     (if js_in prop (heap s a) then s
      else (case map_of (default_headers s) prop of
              None \<Rightarrow> s
            | Some v \<Rightarrow> s\<lparr>heap := (heap s)(a := js_put (heap s a) prop v)\<rparr>))"

definition setHeaders :: "'u state \<Rightarrow> 'u state" where
  "setHeaders s =
     (if length (own_keys (default_headers s)) > 0 then
        (let (a, s1) = (case headers (req s) of
                          None \<Rightarrow> (let (a', s') = alloc [] s
                                    in (a', s'\<lparr>req := (req s')\<lparr>headers := Some a'\<rparr>\<rparr>))
                        | Some a' \<Rightarrow> (a', s))
         in foldl (add_default_header a) s1 (own_keys (default_headers s1)))
      else s)"

definition setBody :: "'u state \<Rightarrow> 'u state" where
  "setBody s =
     (let r = req s;
          r1 = (if truthy (data r) then r\<lparr>body := data r\<rparr> else r);
          r2 = (if truthy (body r1) then r1\<lparr>data := body r1\<rparr> else r1);
          bodyType = typeof (body r2);
          r3 = (if bodyType = ''number'' \<or> bodyType = ''boolean''
                then r2\<lparr>data := JStr (toString (body r2))\<rparr> else r2)
      in s\<lparr>req := r3\<rparr>)"

definition copy_header :: "obj \<Rightarrow> obj \<Rightarrow> string \<Rightarrow> obj" where
  "copy_header src dst prop =
     (case map_of src prop of None \<Rightarrow> dst | Some v \<Rightarrow> js_put dst prop v)"

text \<open>
  \<open>setMultiPartFormData\<close>. The call \<open>getBuffer()\<close> on line 79 comes first; when it
  throws, nothing has been written.
\<close>

definition setMultiPartFormData :: "'u state \<Rightarrow> js_exception + 'u state" where
  "setMultiPartFormData s =
     (case multiPartFormData (req s) of
        None \<Rightarrow> Inr s
      | Some form \<Rightarrow>
          (case getBuffer form of
             Inl e \<Rightarrow> Inl e
           | Inr buffer \<Rightarrow>
               (let s1 = s\<lparr>req := (req s)\<lparr>data := JBuffer buffer\<rparr>\<rparr>;
                    multiPartHeaders = getHeaders form;
                    s2 = (case headers (req s1) of
                            None \<Rightarrow> (let (a, s') = alloc multiPartHeaders s1
                                      in s'\<lparr>req := (req s')\<lparr>headers := Some a\<rparr>\<rparr>)
                          | Some a \<Rightarrow>
                              s1\<lparr>heap := (heap s1)(a := foldl (copy_header multiPartHeaders)
                                                            (heap s1 a) (own_keys multiPartHeaders))\<rparr>)
                in Inr (s2\<lparr>req := (req s2)\<lparr>multiPartFormData := None\<rparr>\<rparr>))))"

definition setFollowRedirects :: "'u state \<Rightarrow> 'u state" where
  "setFollowRedirects s =
     (if config_followRedirects (cfg s) \<and> typeof (followRedirects (req s)) = ''undefined''
      then s\<lparr>req := (req s)\<lparr>followRedirects := JBool (config_followRedirects (cfg s))\<rparr>\<rparr>
      else s)"

text \<open>
  \<open>process\<close>, on the data processor's tables and the state. The last assignment is
  line 19, \<open>request.timeout = request.timeout || config.request.timeout\<close>.
\<close>

definition process ::
  "(string \<Rightarrow> js_exception + parsed_url) \<Rightarrow> ((string \<times> string) list option \<Rightarrow> string) \<Rightarrow>
   'p processor \<Rightarrow> 'p \<times> jsval state \<Rightarrow> js_exception + 'p \<times> string state" where
  "process parse plainQuery processor ts =
     (case prepare processor ts of
        Inl e \<Rightarrow> Inl e
      | Inr (t, s0) \<Rightarrow>
          (case setBaseUrl parse s0 of
             Inl e \<Rightarrow> Inl e
           | Inr s1 \<Rightarrow>
               (let s2 = setPathParams s1;
                    s3 = setQueryParams plainQuery s2;
                    s4 = setHeaders s3;
                    s5 = setBody s4
                in case setMultiPartFormData s5 of
                     Inl e \<Rightarrow> Inl e
                   | Inr s6 \<Rightarrow>
                       (let s7 = setFollowRedirects s6
                        in Inr (t, s7\<lparr>req := (req s7)\<lparr>timeout :=
                                  (if truthy (timeout (req s7)) then timeout (req s7)
                                   else JNum (config_timeout (cfg s7)))\<rparr>\<rparr>)))))"

subsection \<open>Sample inputs\<close>

text \<open>
  The answers of Node's \<open>url.parse\<close> on the URLs used in the examples. The parser
  percent-escapes braces in the path, and it throws \<open>URIError\<close> when the user-info
  part is not valid percent-encoding. A string outside the table is answered like
  \<open>abc\<close>: no protocol, no host, the whole string as path name.
\<close>

definition url_parse_sample :: "string \<Rightarrow> js_exception + parsed_url" where
  "url_parse_sample u =
     (if u = ''http://localhost:3000/api/users/{id}'' then
        Inr \<lparr>protocol = Some ''http:'', host = Some ''localhost:3000'',
             pathname = Some ''/api/users/%7Bid%7D''\<rparr>
      else if u = ''https://randomuser.me/api'' then
        Inr \<lparr>protocol = Some ''https:'', host = Some ''randomuser.me'',
             pathname = Some ''/api''\<rparr>
      else if u = ''http://%E0%A4%A@example.com/'' then Inl URIError
      else Inr \<lparr>protocol = None, host = None, pathname = Some u\<rparr>)"

text \<open>A data processor without tables that hands the request on as it is.\<close>

definition processor_sample :: "unit processor" where
  "processor_sample =
     \<lparr>processMaps = Inr, processTemplates = Inr, processData = (\<lambda>t s. Inr (t, s))\<rparr>"

definition sample_config :: config where
  "sample_config =
     \<lparr>config_baseUrl = ''http://localhost:3000'', config_timeout = 3000,
      config_headers = 0, config_followRedirects = True\<rparr>"

definition sample_heap :: "addr \<Rightarrow> obj" where
  "sample_heap =
     (\<lambda>a. [])(0 := [(''Authorization'', ''Basic xxxxx''), (''content-type'', ''application/json'')],
              1 := [(''content-type'', ''text/plain''), (''Accept'', ''*'')])"

definition sample_request :: "string request" where
  "sample_request =
     \<lparr>url = ''/api/users/{id}'', pathParams = Some [(''id'', ''7'')],
      queryParams = Some [(''name'', ''bolt'')], headers = Some 1,
      data = JUndefined, body = JUndefined, multiPartFormData = None,
      followRedirects = JUndefined, timeout = JUndefined,
      path = JUndefined, baseUrl = JUndefined\<rparr>"

definition sample_state :: "string state" where
  "sample_state = \<lparr>heap = sample_heap, nxt = 2, cfg = sample_config, req = sample_request\<rparr>"

definition sample_form :: multipart where
  "sample_form =
     \<lparr>getBuffer = Inr ''--b Content-Disposition: form-data; name=x 1 --b--'',
      getHeaders = [(''content-type'', ''multipart/form-data; boundary=b'')]\<rparr>"

text \<open>The same with the relative URL \<open>abc\<close> and no base URL configured.\<close>

definition sample_state_abc :: "string state" where
  "sample_state_abc =
     sample_state\<lparr>req := sample_request\<lparr>url := ''abc''\<rparr>,
                  cfg := sample_config\<lparr>config_baseUrl := []\<rparr>\<rparr>"

text \<open>The sample request carrying a multipart form.\<close>

definition sample_state_form :: "string state" where
  "sample_state_form =
     sample_state\<lparr>req := sample_request\<lparr>multiPartFormData := Some sample_form\<rparr>\<rparr>"

text \<open>
  The same where the request's only header is a content type spelled with capitals, as
  \<open>withHeaders({'Content-Type': 'application/json'})\<close> leaves it.
\<close>

definition sample_state_form_capitals :: "string state" where
  "sample_state_form_capitals =
     sample_state_form\<lparr>heap := sample_heap(1 := [(''Content-Type'', ''application/json'')])\<rparr>"

text \<open>
  A form with a stream among its parts, for which \<open>getBuffer()\<close> throws, and the sample
  request carrying it.
\<close>

definition sample_form_stream :: multipart where
  "sample_form_stream =
     \<lparr>getBuffer = Inl TypeError,
      getHeaders = [(''content-type'', ''multipart/form-data; boundary=b'')]\<rparr>"

definition sample_state_form_stream :: "string state" where
  "sample_state_form_stream =
     sample_state\<lparr>req := sample_request\<lparr>multiPartFormData := Some sample_form_stream\<rparr>\<rparr>"

text \<open>
  The same where the request's header object is the default headers object itself.
\<close>

definition sample_state_form_shared :: "string state" where
  "sample_state_form_shared =
     sample_state_form\<lparr>req := (req sample_state_form)\<lparr>headers := Some 0\<rparr>\<rparr>"

text \<open>
  A state as it comes in: the URL is a value, here the string that the state carries.
\<close>

definition incoming :: "string state \<Rightarrow> jsval state" where
  "incoming s = with_req s (with_url (req s) (JStr (url (req s))))"

subsection \<open>Notions used to state the properties\<close>

text \<open>The two types for which \<open>setBody\<close> stringifies the payload.\<close>

definition scalar :: "jsval \<Rightarrow> bool" where
  "scalar v = (typeof v = ''number'' \<or> typeof v = ''boolean'')"

text \<open>
  The specification's word for the base-URL step is that the URL is ``absolute''.
  Read with RFC 3986, a URL is absolute when it begins with a scheme: a letter, then
  letters, digits, \<open>+\<close>, \<open>-\<close> or \<open>.\<close>, up to a colon. The code tests something else
  (\<open>startsWith('http')\<close>); this definition is only compared with it.
\<close>

fun scheme_end :: "string \<Rightarrow> bool" where
  "scheme_end [] = False"
| "scheme_end (c # cs) =
     (c = CHR '':'' \<or>
      (c \<in> set ''abcdefghijklmnopqrstuvwxyzABCDEFGHIJKLMNOPQRSTUVWXYZ0123456789+-.'' \<and>
       scheme_end cs))"

definition absolute_url :: "string \<Rightarrow> bool" where
  "absolute_url u =
     (case u of
        [] \<Rightarrow> False
      | c # cs \<Rightarrow> c \<in> set ''abcdefghijklmnopqrstuvwxyzABCDEFGHIJKLMNOPQRSTUVWXYZ'' \<and> scheme_end cs)"

text \<open>
  The defaults object is an allocated object, and the request's header object, if
  there is one, is another object.
\<close>

definition defaults_apart :: "'u state \<Rightarrow> bool" where
  "defaults_apart s =
     (config_headers (cfg s) < nxt s \<and> headers (req s) \<noteq> Some (config_headers (cfg s)))"

text \<open>
  What a run of the steps from the state \<open>s0\<close> may have done when it has reached \<open>s\<close>:
  allocate, write the request's own header object or one allocated since, and nothing
  else on the heap or in the configuration.
\<close>

definition only_own_headers_written :: "'a state \<Rightarrow> 'b state \<Rightarrow> bool" where
  "only_own_headers_written s0 s =
     (cfg s = cfg s0 \<and> nxt s0 \<le> nxt s \<and>
      (\<forall>a. a < nxt s0 \<and> headers (req s0) \<noteq> Some a \<longrightarrow> heap s a = heap s0 a) \<and>
      (headers (req s) = headers (req s0) \<or>
       (\<exists>b. nxt s0 \<le> b \<and> b < nxt s \<and> headers (req s) = Some b)))"

section \<open>Properties\<close>

subsection \<open>Replacement of the leftmost occurrence\<close>

lemma getSubstitution_plain:
  "CHR ''$'' \<notin> set v \<Longrightarrow> getSubstitution m p q v = v"
  by (induction m p q v rule: getSubstitution.induct) auto

lemma split_first_None_iff:
  "split_first pat s = None \<longleftrightarrow> \<not> sublist pat s"
proof (induction s)
  case Nil
  then show ?case by simp
next
  case (Cons c cs)
  show ?case
  proof (cases "prefix pat (c # cs)")
    case True
    then show ?thesis by (auto dest: prefix_imp_sublist)
  next
    case False
    then show ?thesis using Cons
      by (auto simp: sublist_Cons_right split: option.splits)
  qed
qed

lemma split_first_leftmost:
  assumes "pat \<noteq> []" "\<not> sublist pat (a @ butlast pat)"
  shows "split_first pat (a @ pat @ b) = Some (a, b)"
  using assms
proof (induction a)
  case Nil
  then show ?case by (cases pat) simp_all
next
  case (Cons x a)
  have "\<not> prefix pat ((x # a) @ pat @ b)"
  proof
    assume p: "prefix pat ((x # a) @ pat @ b)"
    have len: "length pat \<le> length ((x # a) @ butlast pat)" by simp
    have "(x # a) @ pat @ b = ((x # a) @ butlast pat) @ (last pat # b)"
      using Cons.prems(1) by simp
    then have q: "prefix ((x # a) @ butlast pat) ((x # a) @ pat @ b)"
      by (simp only: prefixI)
    have "prefix pat ((x # a) @ butlast pat)"
      by (rule prefix_length_prefix [OF p q len])
    then show False using Cons.prems(2) prefix_imp_sublist by blast
  qed
  moreover have "\<not> sublist pat (a @ butlast pat)"
    using Cons.prems(2) by (auto simp: sublist_Cons_right)
  ultimately show ?case using Cons by simp
qed

lemma placeholder_nonempty: "placeholder name \<noteq> []"
  by (simp add: placeholder_def)

lemma substitute_absent:
  assumes "\<not> sublist (placeholder name) u"
  shows "substitute u (name, v) = u"
proof -
  have "split_first (placeholder name) u = None"
    using assms by (simp add: split_first_None_iff)
  then show ?thesis
    by (simp add: substitute_def String_replace_def)
qed

lemma substitute_leftmost:
  assumes "\<not> sublist (placeholder name) (a @ butlast (placeholder name))"
  shows "substitute (a @ placeholder name @ b) (name, v)
         = a @ getSubstitution (placeholder name) a b v @ b"
  using split_first_leftmost [OF placeholder_nonempty assms]
  by (simp add: substitute_def String_replace_def)

subsection \<open>Path parameters\<close>

text \<open>
  Claim C2, as amended. \<open>setPathParams\<close> returns a state and has no error result. For a
  request with declared path parameters the URL is run through the parameters in key
  order, one \<open>replace\<close> each. A parameter whose token \<open>{name}\<close> does not occur leaves the
  URL as it is. A parameter whose token occurs, and whose value has no dollar sign,
  replaces the leftmost occurrence by the value: whatever follows it, further
  occurrences of the same token included, stays literal. Nothing is said here of a
  value with a dollar sign.
\<close>

theorem setPathParams_leftmost_only:
  assumes "pathParams (req s) = Some ps"
  shows "url (req (setPathParams s)) = foldl substitute (url (req s)) ps \<and>
         (\<forall>u name v. \<not> sublist (placeholder name) u \<longrightarrow> substitute u (name, v) = u) \<and>
         (\<forall>a b name v.
            \<not> sublist (placeholder name) (a @ butlast (placeholder name)) \<and> CHR ''$'' \<notin> set v
            \<longrightarrow> substitute (a @ placeholder name @ b) (name, v) = a @ v @ b)"
  using assms
  by (simp add: setPathParams_def substitute_absent substitute_leftmost getSubstitution_plain)

theorem setPathParams_leftmost_only_witness:
  "pathParams (req (sample_state\<lparr>req := sample_request\<lparr>pathParams := Some [(''id'', ''7''), (''zip'', ''1'')]\<rparr>\<rparr>))
     = Some [(''id'', ''7''), (''zip'', ''1'')] \<and>
   url (req (setPathParams (sample_state\<lparr>req := sample_request\<lparr>pathParams := Some [(''id'', ''7''), (''zip'', ''1'')]\<rparr>\<rparr>)))
     = ''/api/users/7''"
proof -
  let ?s = "sample_state\<lparr>req := sample_request\<lparr>pathParams := Some [(''id'', ''7''), (''zip'', ''1'')]\<rparr>\<rparr>"
  have p: "pathParams (req ?s) = Some [(''id'', ''7''), (''zip'', ''1'')]" by simp
  note t = setPathParams_leftmost_only [OF p]
  note t1 = t [THEN conjunct1]
  note t2 = t [THEN conjunct2, THEN conjunct1, rule_format]
  note t3 = t [THEN conjunct2, THEN conjunct2, rule_format]
  have u: "url (req ?s) = ''/api/users/'' @ placeholder ''id'' @ []"
    by (simp add: sample_state_def sample_request_def placeholder_def)
  have n1: "\<not> sublist (placeholder ''id'') (''/api/users/'' @ butlast (placeholder ''id''))"
    by (simp add: placeholder_def sublist_code)
  have n2: "\<not> sublist (placeholder ''zip'') (''/api/users/'' @ ''7'' @ [])"
    by (simp add: placeholder_def sublist_code)
  have d: "CHR ''$'' \<notin> set ''7''" by simp
  have s1: "substitute (''/api/users/'' @ placeholder ''id'' @ []) (''id'', ''7'') = ''/api/users/'' @ ''7'' @ []"
    by (rule t3 [OF conjI [OF n1 d]])
  have s2: "substitute (''/api/users/'' @ ''7'' @ []) (''zip'', ''1'') = ''/api/users/'' @ ''7'' @ []"
    by (rule t2 [OF n2])
  have "url (req (setPathParams ?s)) = foldl substitute (url (req ?s)) [(''id'', ''7''), (''zip'', ''1'')]"
    by (rule t1)
  also have "\<dots> = substitute (substitute (''/api/users/'' @ placeholder ''id'' @ []) (''id'', ''7'')) (''zip'', ''1'')"
    by (simp only: u foldl.simps)
  also have "\<dots> = ''/api/users/'' @ ''7'' @ []"
    by (simp only: s1 s2)
  also have "\<dots> = ''/api/users/7''" by simp
  finally show ?thesis using p by simp
qed

text \<open>
  Claim C2 as stated fails: with the token twice in the URL only the first occurrence
  is replaced and the second is kept.
\<close>

theorem setPathParams_counterexample:
  "url (req (setPathParams (sample_state\<lparr>req := sample_request\<lparr>url := ''/users/{id}/friends/{id}''\<rparr>\<rparr>)))
     = ''/users/7/friends/{id}''"
  by code_simp

text \<open>
  Why the statement above is about values without a dollar sign: \<open>replace\<close> reads the
  value as a replacement pattern.
\<close>

lemma substitute_dollar_example:
  "substitute ''/api/users/{id}'' (''id'', ''$$'') = ''/api/users/$''"
  by code_simp

subsection \<open>Query parameters\<close>

text \<open>
  Claim C10. Whatever the serialiser \<open>plainQuery\<close> returns for the request's query
  parameters: if it is a non-empty string, the URL becomes the old URL, a question
  mark and that string, with no look at what the old URL contains; if it is empty,
  the state is returned as it is. For the serialiser \<open>getPlainQuery\<close> the second case
  covers the absent and the empty mapping.
\<close>

theorem setQueryParams_appends:
  "(plainQuery (queryParams (req s)) \<noteq> [] \<longrightarrow>
      url (req (setQueryParams plainQuery s))
        = url (req s) @ ''?'' @ plainQuery (queryParams (req s))) \<and>
   (plainQuery (queryParams (req s)) = [] \<longrightarrow> setQueryParams plainQuery s = s) \<and>
   (queryParams (req s) = None \<or> queryParams (req s) = Some [] \<longrightarrow>
      setQueryParams getPlainQuery s = s)"
  by (auto simp: setQueryParams_def getPlainQuery_def)

theorem setQueryParams_appends_witness:
  "getPlainQuery (queryParams (req (sample_state\<lparr>req := sample_request\<lparr>url := ''/api?page=2''\<rparr>\<rparr>))) \<noteq> [] \<and>
   url (req (setQueryParams getPlainQuery (sample_state\<lparr>req := sample_request\<lparr>url := ''/api?page=2''\<rparr>\<rparr>)))
     = ''/api?page=2?name=bolt'' \<and>
   queryParams (req (sample_state\<lparr>req := sample_request\<lparr>queryParams := Some []\<rparr>\<rparr>)) = Some [] \<and>
   url (req (setQueryParams getPlainQuery (sample_state\<lparr>req := sample_request\<lparr>queryParams := Some []\<rparr>\<rparr>)))
     = ''/api/users/{id}''"
proof -
  let ?s = "sample_state\<lparr>req := sample_request\<lparr>url := ''/api?page=2''\<rparr>\<rparr>"
  let ?e = "sample_state\<lparr>req := sample_request\<lparr>queryParams := Some []\<rparr>\<rparr>"
  have q: "getPlainQuery (queryParams sample_request) = ''name=bolt''"
    by (simp add: getPlainQuery_def sample_request_def)
  have n: "getPlainQuery (queryParams (req ?s)) \<noteq> []"
    by (simp add: q)
  have "url (req (setQueryParams getPlainQuery ?s))
          = url (req ?s) @ ''?'' @ getPlainQuery (queryParams (req ?s))"
    using setQueryParams_appends [of getPlainQuery ?s, THEN conjunct1] n by (rule mp)
  then have a: "url (req (setQueryParams getPlainQuery ?s)) = ''/api?page=2?name=bolt''"
    by (simp add: q)
  have e: "queryParams (req ?e) = Some []" by simp
  have "setQueryParams getPlainQuery ?e = ?e"
    using setQueryParams_appends [of getPlainQuery ?e, THEN conjunct2, THEN conjunct2] e
    by simp
  then have b: "url (req (setQueryParams getPlainQuery ?e)) = ''/api/users/{id}''"
    by (simp add: sample_request_def)
  show ?thesis using n a e b by simp
qed

subsection \<open>Body\<close>

text \<open>
  Claim C3, as amended. After \<open>setBody\<close> the body is the old \<open>data\<close> when that was
  truthy and the old body otherwise: \<open>data\<close> has precedence, whichever was assigned
  last. If the resulting body is a number or a boolean, \<open>data\<close> is its string form and
  the body keeps the scalar. Otherwise, if the resulting body is truthy, \<open>data\<close> and
  body hold the same value; if it is falsy, \<open>data\<close> is left as it was.
\<close>

theorem setBody_normal_form:
  "body (req (setBody s)) = (if truthy (data (req s)) then data (req s) else body (req s)) \<and>
   (scalar (body (req (setBody s))) \<longrightarrow>
      data (req (setBody s)) = JStr (toString (body (req (setBody s))))) \<and>
   (\<not> scalar (body (req (setBody s))) \<and> truthy (body (req (setBody s))) \<longrightarrow>
      data (req (setBody s)) = body (req (setBody s))) \<and>
   (\<not> scalar (body (req (setBody s))) \<and> \<not> truthy (body (req (setBody s))) \<longrightarrow>
      data (req (setBody s)) = data (req s))"
  by (simp add: setBody_def Let_def scalar_def)

theorem setBody_normal_form_witness:
  "scalar (body (req (setBody (sample_state\<lparr>req := sample_request\<lparr>body := JBool True\<rparr>\<rparr>)))) \<and>
   data (req (setBody (sample_state\<lparr>req := sample_request\<lparr>body := JBool True\<rparr>\<rparr>))) = JStr ''true'' \<and>
   \<not> scalar (body (req (setBody (sample_state\<lparr>req := sample_request\<lparr>data := JObj [(''Name'', JStr ''Jon'')]\<rparr>\<rparr>)))) \<and>
   truthy (body (req (setBody (sample_state\<lparr>req := sample_request\<lparr>data := JObj [(''Name'', JStr ''Jon'')]\<rparr>\<rparr>)))) \<and>
   data (req (setBody (sample_state\<lparr>req := sample_request\<lparr>data := JObj [(''Name'', JStr ''Jon'')]\<rparr>\<rparr>)))
     = JObj [(''Name'', JStr ''Jon'')] \<and>
   \<not> scalar (body (req (setBody (sample_state\<lparr>req := sample_request\<lparr>data := JStr [], body := JNull\<rparr>\<rparr>)))) \<and>
   \<not> truthy (body (req (setBody (sample_state\<lparr>req := sample_request\<lparr>data := JStr [], body := JNull\<rparr>\<rparr>)))) \<and>
   data (req (setBody (sample_state\<lparr>req := sample_request\<lparr>data := JStr [], body := JNull\<rparr>\<rparr>))) = JStr []"
proof -
  let ?b = "sample_state\<lparr>req := sample_request\<lparr>body := JBool True\<rparr>\<rparr>"
  let ?j = "sample_state\<lparr>req := sample_request\<lparr>data := JObj [(''Name'', JStr ''Jon'')]\<rparr>\<rparr>"
  let ?n = "sample_state\<lparr>req := sample_request\<lparr>data := JStr [], body := JNull\<rparr>\<rparr>"
  have b0: "body (req (setBody ?b)) = JBool True"
    using setBody_normal_form [of ?b, THEN conjunct1] by (simp add: sample_request_def)
  have b1: "scalar (body (req (setBody ?b)))"
    by (simp add: b0 scalar_def)
  have b2: "data (req (setBody ?b)) = JStr (toString (body (req (setBody ?b))))"
    using setBody_normal_form [of ?b, THEN conjunct2, THEN conjunct1] b1 by (rule mp)
  have j0: "body (req (setBody ?j)) = JObj [(''Name'', JStr ''Jon'')]"
    using setBody_normal_form [of ?j, THEN conjunct1] by simp
  have j1: "\<not> scalar (body (req (setBody ?j))) \<and> truthy (body (req (setBody ?j)))"
    by (simp add: j0 scalar_def)
  have j2: "data (req (setBody ?j)) = body (req (setBody ?j))"
    using setBody_normal_form [of ?j, THEN conjunct2, THEN conjunct2, THEN conjunct1] j1
    by (rule mp)
  have n0: "body (req (setBody ?n)) = JNull"
    using setBody_normal_form [of ?n, THEN conjunct1] by simp
  have n1: "\<not> scalar (body (req (setBody ?n))) \<and> \<not> truthy (body (req (setBody ?n)))"
    by (simp add: n0 scalar_def)
  have n2: "data (req (setBody ?n)) = data (req ?n)"
    using setBody_normal_form [of ?n, THEN conjunct2, THEN conjunct2, THEN conjunct2] n1
    by (rule mp)
  show ?thesis
    using b1 b2 j1 j2 n1 n2 by (simp add: b0 j0)
qed

text \<open>
  Claim C3 as stated fails: for the numeric payload 5 the two fields differ afterwards
  (the string \<open>5\<close> against the number), and when both fields were set the value of
  \<open>data\<close> stays, not the one assigned last.
\<close>

theorem setBody_counterexample:
  "data (req (setBody (sample_state\<lparr>req := sample_request\<lparr>body := JNum 5\<rparr>\<rparr>))) = JStr ''5'' \<and>
   body (req (setBody (sample_state\<lparr>req := sample_request\<lparr>body := JNum 5\<rparr>\<rparr>))) = JNum 5 \<and>
   body (req (setBody (sample_state\<lparr>req := sample_request\<lparr>data := JStr ''first'', body := JStr ''last''\<rparr>\<rparr>)))
     = JStr ''first''"
  by code_simp

subsection \<open>What each step leaves alone\<close>

lemma with_url_fields [simp]:
  "url (with_url r u) = u"
  "pathParams (with_url r u) = pathParams r"
  "queryParams (with_url r u) = queryParams r"
  "headers (with_url r u) = headers r"
  "data (with_url r u) = data r"
  "body (with_url r u) = body r"
  "multiPartFormData (with_url r u) = multiPartFormData r"
  "followRedirects (with_url r u) = followRedirects r"
  "timeout (with_url r u) = timeout r"
  "path (with_url r u) = path r"
  "baseUrl (with_url r u) = baseUrl r"
  by (simp_all add: with_url_def)

lemma with_req_fields [simp]:
  "heap (with_req s r) = heap s"
  "nxt (with_req s r) = nxt s"
  "cfg (with_req s r) = cfg s"
  "req (with_req s r) = r"
  by (simp_all add: with_req_def)

lemma add_default_header_frame [simp]:
  "cfg (add_default_header a s k) = cfg s"
  "req (add_default_header a s k) = req s"
  "nxt (add_default_header a s k) = nxt s"
  "b \<noteq> a \<Longrightarrow> heap (add_default_header a s k) b = heap s b"
  by (simp_all add: add_default_header_def split: option.splits)

lemma foldl_add_default_header_frame [simp]:
  "cfg (foldl (add_default_header a) s ks) = cfg s"
  "req (foldl (add_default_header a) s ks) = req s"
  "nxt (foldl (add_default_header a) s ks) = nxt s"
  "b \<noteq> a \<Longrightarrow> heap (foldl (add_default_header a) s ks) b = heap s b"
  by (induction ks arbitrary: s) simp_all

lemma steps_keep_cfg [simp]:
  "cfg (setPathParams s) = cfg s"
  "cfg (setQueryParams q s) = cfg s"
  "cfg (setHeaders t) = cfg t"
  "cfg (setBody t) = cfg t"
  "cfg (setFollowRedirects t) = cfg t"
  by (simp_all add: setPathParams_def setQueryParams_def setHeaders_def setBody_def
      setFollowRedirects_def alloc_def Let_def split: option.splits prod.splits)

lemma steps_keep_timeout [simp]:
  "timeout (req (setPathParams s)) = timeout (req s)"
  "timeout (req (setQueryParams q s)) = timeout (req s)"
  "timeout (req (setHeaders t)) = timeout (req t)"
  "timeout (req (setBody t)) = timeout (req t)"
  "timeout (req (setFollowRedirects t)) = timeout (req t)"
  by (simp_all add: setPathParams_def setQueryParams_def setHeaders_def setBody_def
      setFollowRedirects_def alloc_def Let_def split: option.splits prod.splits)

lemma steps_keep_path [simp]:
  "path (req (setPathParams s)) = path (req s)"
  "path (req (setQueryParams q s)) = path (req s)"
  "path (req (setHeaders t)) = path (req t)"
  "path (req (setBody t)) = path (req t)"
  "path (req (setFollowRedirects t)) = path (req t)"
  by (simp_all add: setPathParams_def setQueryParams_def setHeaders_def setBody_def
      setFollowRedirects_def alloc_def Let_def split: option.splits prod.splits)

lemma steps_keep_baseUrl [simp]:
  "baseUrl (req (setPathParams s)) = baseUrl (req s)"
  "baseUrl (req (setQueryParams q s)) = baseUrl (req s)"
  "baseUrl (req (setHeaders t)) = baseUrl (req t)"
  "baseUrl (req (setBody t)) = baseUrl (req t)"
  "baseUrl (req (setFollowRedirects t)) = baseUrl (req t)"
  by (simp_all add: setPathParams_def setQueryParams_def setHeaders_def setBody_def
      setFollowRedirects_def alloc_def Let_def split: option.splits prod.splits)

lemma steps_keep_multiPartFormData [simp]:
  "multiPartFormData (req (setPathParams s)) = multiPartFormData (req s)"
  "multiPartFormData (req (setQueryParams q s)) = multiPartFormData (req s)"
  "multiPartFormData (req (setHeaders t)) = multiPartFormData (req t)"
  "multiPartFormData (req (setBody t)) = multiPartFormData (req t)"
  by (simp_all add: setPathParams_def setQueryParams_def setHeaders_def setBody_def
      alloc_def Let_def split: option.splits prod.splits)

lemma setMultiPartFormData_Inl:
  "(setMultiPartFormData s = Inl e) =
     (\<exists>form. multiPartFormData (req s) = Some form \<and> getBuffer form = Inl e)"
  by (auto simp: setMultiPartFormData_def Let_def alloc_def
      split: option.splits sum.splits prod.splits)

lemma setMultiPartFormData_keeps:
  assumes "setMultiPartFormData s = Inr s'"
  shows "cfg s' = cfg s" and "timeout (req s') = timeout (req s)"
    and "path (req s') = path (req s)" and "baseUrl (req s') = baseUrl (req s)"
  using assms
  by (auto simp: setMultiPartFormData_def Let_def alloc_def
      split: option.splits sum.splits prod.splits)

lemma setBaseUrl_Inl:
  "(setBaseUrl parse s = Inl e) =
     ((\<forall>u. url (req s) \<noteq> JStr u) \<and> e = TypeError \<or>
      (\<exists>u. url (req s) = JStr u \<and> parse (url_with_base (cfg s) u) = Inl e))"
  by (cases "url (req s)") (auto simp: setBaseUrl_def Let_def split: sum.splits)

lemma setBaseUrl_Inr:
  "(setBaseUrl parse s = Inr s') =
     (\<exists>u p. url (req s) = JStr u \<and> parse (url_with_base (cfg s) u) = Inr p \<and>
            s' = with_req s ((with_url (req s) (url_with_base (cfg s) u))
                   \<lparr>path := nullable (pathname p),
                    baseUrl := JStr (template_string (protocol p) @ ''//''
                                     @ template_string (host p))\<rparr>))"
  by (cases "url (req s)") (auto simp: setBaseUrl_def Let_def split: sum.splits)

lemma process_Inl:
  "(process parse q pr ts = Inl e) =
     (prepare pr ts = Inl e \<or>
      (\<exists>t s0. prepare pr ts = Inr (t, s0) \<and>
         (setBaseUrl parse s0 = Inl e \<or>
          (\<exists>s1. setBaseUrl parse s0 = Inr s1 \<and>
             setMultiPartFormData
               (setBody (setHeaders (setQueryParams q (setPathParams s1)))) = Inl e))))"
  by (auto simp: process_def Let_def split: sum.splits prod.splits)

lemma process_Inr:
  "(process parse q pr ts = Inr (t', s')) =
     (\<exists>s0 s1 s6. prepare pr ts = Inr (t', s0) \<and> setBaseUrl parse s0 = Inr s1 \<and>
        setMultiPartFormData
          (setBody (setHeaders (setQueryParams q (setPathParams s1)))) = Inr s6 \<and>
        s' = (setFollowRedirects s6)\<lparr>req := (req (setFollowRedirects s6))\<lparr>timeout :=
               (if truthy (timeout (req (setFollowRedirects s6)))
                then timeout (req (setFollowRedirects s6))
                else JNum (config_timeout (cfg (setFollowRedirects s6))))\<rparr>\<rparr>)"
  by (auto simp: process_def Let_def split: sum.splits prod.splits)

lemma process_InrD:
  assumes "process parse q pr ts = Inr (t', s')"
  obtains s0 u p where
    "prepare pr ts = Inr (t', s0)"
    "url (req s0) = JStr u"
    "parse (url_with_base (cfg s0) u) = Inr p"
    "path (req s') = nullable (pathname p)"
    "baseUrl (req s') = JStr (template_string (protocol p) @ ''//'' @ template_string (host p))"
    "timeout (req s') = (if truthy (timeout (req s0)) then timeout (req s0)
                         else JNum (config_timeout (cfg s0)))"
    "cfg s' = cfg s0"
proof -
  from assms obtain s0 s1 s6 where
    a: "prepare pr ts = Inr (t', s0)" and b: "setBaseUrl parse s0 = Inr s1"
    and m: "setMultiPartFormData
              (setBody (setHeaders (setQueryParams q (setPathParams s1)))) = Inr s6"
    and s': "s' = (setFollowRedirects s6)\<lparr>req := (req (setFollowRedirects s6))\<lparr>timeout :=
               (if truthy (timeout (req (setFollowRedirects s6)))
                then timeout (req (setFollowRedirects s6))
                else JNum (config_timeout (cfg (setFollowRedirects s6))))\<rparr>\<rparr>"
    unfolding process_Inr by blast
  from b obtain u p where u: "url (req s0) = JStr u"
    and p: "parse (url_with_base (cfg s0) u) = Inr p"
    and s1: "s1 = with_req s0 ((with_url (req s0) (url_with_base (cfg s0) u))
                   \<lparr>path := nullable (pathname p),
                    baseUrl := JStr (template_string (protocol p) @ ''//''
                                     @ template_string (host p))\<rparr>)"
    unfolding setBaseUrl_Inr by blast
  note k = setMultiPartFormData_keeps [OF m]
  show thesis
  proof (rule that [OF a u p])
    show "path (req s') = nullable (pathname p)" by (simp add: s' k s1)
    show "baseUrl (req s') = JStr (template_string (protocol p) @ ''//'' @ template_string (host p))"
      by (simp add: s' k s1)
    show "timeout (req s') = (if truthy (timeout (req s0)) then timeout (req s0)
                         else JNum (config_timeout (cfg s0)))"
      by (simp add: s' k s1)
    show "cfg s' = cfg s0" by (simp add: s' k s1)
  qed
qed

subsection \<open>Base URL\<close>

text \<open>
  Claim C6, as amended. When \<open>setBaseUrl\<close> returns, the URL was a string, and now it
  has the base URL in front exactly if a base URL is configured (a non-empty string)
  and the URL did not begin with the four characters \<open>http\<close>; a URL that begins with
  \<open>http\<close>, which every \<open>http://\<close> and \<open>https://\<close> URL does, is left as it is, and so is
  every URL when no base URL is configured.
\<close>

theorem setBaseUrl_prefix_rule:
  assumes "setBaseUrl parse s = Inr s'"
  shows "\<exists>u. url (req s) = JStr u \<and>
             url (req s') =
               (if config_baseUrl (cfg s) \<noteq> [] \<and> \<not> prefix ''http'' u
                then config_baseUrl (cfg s) @ u else u)"
  using assms by (auto simp: setBaseUrl_Inr url_with_base_def startsWith_def)

theorem setBaseUrl_prefix_rule_witness:
  "setBaseUrl url_parse_sample (incoming sample_state) =
     Inr (sample_state\<lparr>req := sample_request\<lparr>url := ''http://localhost:3000/api/users/{id}'',
            path := JStr ''/api/users/%7Bid%7D'', baseUrl := JStr ''http://localhost:3000''\<rparr>\<rparr>) \<and>
   url (req (sample_state\<lparr>req := sample_request\<lparr>url := ''http://localhost:3000/api/users/{id}'',
            path := JStr ''/api/users/%7Bid%7D'', baseUrl := JStr ''http://localhost:3000''\<rparr>\<rparr>))
     = config_baseUrl (cfg (incoming sample_state)) @ ''/api/users/{id}'' \<and>
   setBaseUrl url_parse_sample
       (incoming (sample_state\<lparr>req := sample_request\<lparr>url := ''https://randomuser.me/api''\<rparr>\<rparr>)) =
     Inr (sample_state\<lparr>req := sample_request\<lparr>url := ''https://randomuser.me/api'',
            path := JStr ''/api'', baseUrl := JStr ''https://randomuser.me''\<rparr>\<rparr>)"
proof -
  let ?s' = "sample_state\<lparr>req := sample_request\<lparr>url := ''http://localhost:3000/api/users/{id}'',
            path := JStr ''/api/users/%7Bid%7D'', baseUrl := JStr ''http://localhost:3000''\<rparr>\<rparr>"
  let ?t = "sample_state\<lparr>req := sample_request\<lparr>url := ''https://randomuser.me/api''\<rparr>\<rparr>"
  let ?t' = "sample_state\<lparr>req := sample_request\<lparr>url := ''https://randomuser.me/api'',
            path := JStr ''/api'', baseUrl := JStr ''https://randomuser.me''\<rparr>\<rparr>"
  have r: "setBaseUrl url_parse_sample (incoming sample_state) = Inr ?s'"
    by (simp add: setBaseUrl_def incoming_def with_req_def with_url_def url_with_base_def
        startsWith_def sample_state_def sample_config_def sample_request_def
        url_parse_sample_def nullable_def template_string_def)
  have c: "url (req (incoming sample_state)) = JStr ''/api/users/{id}'' \<and>
           config_baseUrl (cfg (incoming sample_state)) \<noteq> [] \<and>
           \<not> prefix ''http'' ''/api/users/{id}''"
    by (simp add: incoming_def sample_state_def sample_config_def sample_request_def)
  have 1: "url (req ?s') = config_baseUrl (cfg (incoming sample_state)) @ ''/api/users/{id}''"
    using setBaseUrl_prefix_rule [OF r] c by simp
  have t: "setBaseUrl url_parse_sample (incoming ?t) = Inr ?t'"
    by (simp add: setBaseUrl_def incoming_def with_req_def with_url_def url_with_base_def
        startsWith_def sample_state_def sample_config_def sample_request_def
        url_parse_sample_def nullable_def template_string_def)
  have "url (req (incoming ?t)) = JStr ''https://randomuser.me/api''"
    by (simp add: incoming_def)
  then have "url (req ?t') = ''https://randomuser.me/api''"
    using setBaseUrl_prefix_rule [OF t] by simp
  then show ?thesis using r 1 t by simp
qed

text \<open>
  Claim C6 as stated fails in both directions: an absolute URL with another scheme
  gets the base URL in front, and a relative URL that happens to begin with \<open>http\<close>
  does not.
\<close>

theorem url_with_base_counterexample:
  "absolute_url ''ftp://files.example.com/a'' \<and>
   url_with_base sample_config ''ftp://files.example.com/a''
     = ''http://localhost:3000ftp://files.example.com/a'' \<and>
   \<not> absolute_url ''httpbin/get'' \<and>
   url_with_base sample_config ''httpbin/get'' = ''httpbin/get''"
  by (simp add: absolute_url_def url_with_base_def startsWith_def sample_config_def)

subsection \<open>Failure of the assembly\<close>

lemma prepare_Inl:
  "(prepare pr (t, s) = Inl e) =
     (processMaps pr t = Inl e \<or>
      (\<exists>t1. processMaps pr t = Inr t1 \<and>
         (processTemplates pr t1 = Inl e \<or>
          (\<exists>t2. processTemplates pr t1 = Inr t2 \<and> processData pr t2 s = Inl e))))"
  by (auto simp: prepare_def split: sum.splits)

lemma process_succeeds:
  assumes "prepare pr ts = Inr (t0, s0)" and "url (req s0) = JStr u"
    and "parse (url_with_base (cfg s0) u) = Inr p"
    and "\<forall>form e'. multiPartFormData (req s0) = Some form \<longrightarrow> getBuffer form \<noteq> Inl e'"
  shows "\<exists>s'. process parse q pr ts = Inr (t0, s')"
proof (cases "process parse q pr ts")
  case (Inl e)
  then show ?thesis
    using assms by (auto simp: process_Inl setBaseUrl_Inl setBaseUrl_Inr setMultiPartFormData_Inl)
next
  case (Inr r)
  then obtain t' s' where "process parse q pr ts = Inr (t', s')" by (cases r) simp
  moreover from this have "t' = t0"
    using assms(1) by (auto simp: process_Inr)
  ultimately show ?thesis by blast
qed

lemma setBaseUrl_then_form_Inl:
  "(\<exists>s1. setBaseUrl parse s0 = Inr s1 \<and>
      setMultiPartFormData
        (setBody (setHeaders (setQueryParams q (setPathParams s1)))) = Inl e) =
   (\<exists>u p form. url (req s0) = JStr u \<and> parse (url_with_base (cfg s0) u) = Inr p \<and>
      multiPartFormData (req s0) = Some form \<and> getBuffer form = Inl e)"
  by (auto simp: setBaseUrl_Inr setMultiPartFormData_Inl)

lemma fail_forms:
  "(((N \<and> E \<or> (\<exists>u. U u \<and> PI u)) \<or> (\<exists>u p form. U u \<and> PR u p \<and> MF form \<and> GB form)))
   = (N \<and> E \<or> (\<exists>u. U u \<and> (PI u \<or> (\<exists>p form. PR u p \<and> MF form \<and> GB form))))"
  by blast

text \<open>
  Claim C4, as amended. No step validates the URL and no \<open>InvalidUrlError\<close> is
  raised: \<open>process\<close> fails exactly when one of its calls throws, with that call's
  exception. These are the data processor in lines 9 to 11; the URL not being a
  string, a \<open>TypeError\<close> in \<open>setBaseUrl\<close>; \<open>url.parse\<close> on the URL as it stands after
  the base-URL test; and \<open>getBuffer()\<close> of the multipart form. When none of them
  throws, \<open>process\<close> returns; in particular a URL in which the parser finds neither
  protocol nor host is accepted, and its \<open>baseUrl\<close> is rendered from the two \<open>null\<close>s.
  (The serialiser of the query parameters is a function that returns a string, as the
  specification describes it.)
\<close>

theorem process_fails_iff_a_call_throws:
  "(process parse plainQuery processor ts = Inl e) =
     (prepare processor ts = Inl e \<or>
      (\<exists>t s0. prepare processor ts = Inr (t, s0) \<and>
         ((\<forall>u. url (req s0) \<noteq> JStr u) \<and> e = TypeError \<or>
          (\<exists>u. url (req s0) = JStr u \<and>
             (parse (url_with_base (cfg s0) u) = Inl e \<or>
              (\<exists>p form. parse (url_with_base (cfg s0) u) = Inr p \<and>
                 multiPartFormData (req s0) = Some form \<and> getBuffer form = Inl e)))))) \<and>
   (prepare processor ts = Inr (t0, s0) \<and> url (req s0) = JStr u \<and>
    parse (url_with_base (cfg s0) u) = Inr p \<and> protocol p = None \<and> host p = None \<and>
    (\<forall>form e'. multiPartFormData (req s0) = Some form \<longrightarrow> getBuffer form \<noteq> Inl e') \<longrightarrow>
      (\<exists>s'. process parse plainQuery processor ts = Inr (t0, s') \<and>
            baseUrl (req s') = JStr ''null//null''))"
proof (intro conjI impI)
  have "(process parse plainQuery processor ts = Inl e) =
     (prepare processor ts = Inl e \<or>
      (\<exists>t s0. prepare processor ts = Inr (t, s0) \<and>
         (((\<forall>u. url (req s0) \<noteq> JStr u) \<and> e = TypeError \<or>
           (\<exists>u. url (req s0) = JStr u \<and> parse (url_with_base (cfg s0) u) = Inl e)) \<or>
          (\<exists>u p form. url (req s0) = JStr u \<and> parse (url_with_base (cfg s0) u) = Inr p \<and>
             multiPartFormData (req s0) = Some form \<and> getBuffer form = Inl e))))"
    by (simp only: process_Inl setBaseUrl_Inl setBaseUrl_then_form_Inl)
  also have "\<dots> =
     (prepare processor ts = Inl e \<or>
      (\<exists>t s0. prepare processor ts = Inr (t, s0) \<and>
         ((\<forall>u. url (req s0) \<noteq> JStr u) \<and> e = TypeError \<or>
          (\<exists>u. url (req s0) = JStr u \<and>
             (parse (url_with_base (cfg s0) u) = Inl e \<or>
              (\<exists>p form. parse (url_with_base (cfg s0) u) = Inr p \<and>
                 multiPartFormData (req s0) = Some form \<and> getBuffer form = Inl e))))))"
    by (simp only: fail_forms)
  finally show "(process parse plainQuery processor ts = Inl e) =
     (prepare processor ts = Inl e \<or>
      (\<exists>t s0. prepare processor ts = Inr (t, s0) \<and>
         ((\<forall>u. url (req s0) \<noteq> JStr u) \<and> e = TypeError \<or>
          (\<exists>u. url (req s0) = JStr u \<and>
             (parse (url_with_base (cfg s0) u) = Inl e \<or>
              (\<exists>p form. parse (url_with_base (cfg s0) u) = Inr p \<and>
                 multiPartFormData (req s0) = Some form \<and> getBuffer form = Inl e))))))" .
next
  assume a: "prepare processor ts = Inr (t0, s0) \<and> url (req s0) = JStr u \<and>
    parse (url_with_base (cfg s0) u) = Inr p \<and> protocol p = None \<and> host p = None \<and>
    (\<forall>form e'. multiPartFormData (req s0) = Some form \<longrightarrow> getBuffer form \<noteq> Inl e')"
  then have a1: "prepare processor ts = Inr (t0, s0)" and a2: "url (req s0) = JStr u"
    and a3: "parse (url_with_base (cfg s0) u) = Inr p"
    and a4: "protocol p = None" "host p = None"
    and a5: "\<forall>form e'. multiPartFormData (req s0) = Some form \<longrightarrow> getBuffer form \<noteq> Inl e'"
    by simp_all
  from process_succeeds [where parse = parse and q = plainQuery, OF a1 a2 a3 a5]
  obtain s' where s': "process parse plainQuery processor ts = Inr (t0, s')" ..
  from s' obtain s0' u' p' where
    f1: "prepare processor ts = Inr (t0, s0')" and f2: "url (req s0') = JStr u'"
    and f3: "parse (url_with_base (cfg s0') u') = Inr p'"
    and f4: "baseUrl (req s')
               = JStr (template_string (protocol p') @ ''//'' @ template_string (host p'))"
    by (rule process_InrD)
  from f1 a1 have "s0' = s0" by simp
  with f2 a2 have "u' = u" by simp
  with f3 a3 \<open>s0' = s0\<close> have "p' = p" by simp
  with f4 a4 have "baseUrl (req s') = JStr ''null//null''"
    by (simp add: template_string_def)
  with s' show "\<exists>s'. process parse plainQuery processor ts = Inr (t0, s') \<and>
            baseUrl (req s') = JStr ''null//null''" by (intro exI conjI)
qed

theorem process_fails_iff_a_call_throws_witness:
  "prepare processor_sample ((), incoming sample_state_abc) = Inr ((), incoming sample_state_abc) \<and>
   url (req (incoming sample_state_abc)) = JStr ''abc'' \<and>
   url_parse_sample (url_with_base (cfg (incoming sample_state_abc)) ''abc'')
     = Inr \<lparr>protocol = None, host = None, pathname = Some ''abc''\<rparr> \<and>
   (\<exists>s'. process url_parse_sample getPlainQuery processor_sample ((), incoming sample_state_abc)
           = Inr ((), s') \<and>
         baseUrl (req s') = JStr ''null//null'')"
proof -
  let ?s = "incoming sample_state_abc"
  let ?p = "\<lparr>protocol = None, host = None, pathname = Some ''abc''\<rparr>"
  have a1: "prepare processor_sample ((), ?s) = Inr ((), ?s)"
    by (simp add: prepare_def processor_sample_def)
  have a2: "url (req ?s) = JStr ''abc''"
    by (simp add: incoming_def sample_state_abc_def)
  have a3: "url_parse_sample (url_with_base (cfg ?s) ''abc'') = Inr ?p"
    by (simp add: url_parse_sample_def url_with_base_def incoming_def sample_state_abc_def)
  have a5: "\<forall>form e'. multiPartFormData (req ?s) = Some form \<longrightarrow> getBuffer form \<noteq> Inl e'"
    by (simp add: incoming_def sample_state_abc_def sample_request_def)
  have "prepare processor_sample ((), ?s) = Inr ((), ?s) \<and> url (req ?s) = JStr ''abc'' \<and>
        url_parse_sample (url_with_base (cfg ?s) ''abc'') = Inr ?p \<and>
        protocol ?p = None \<and> host ?p = None \<and>
        (\<forall>form e'. multiPartFormData (req ?s) = Some form \<longrightarrow> getBuffer form \<noteq> Inl e')"
    using a1 a2 a3 a5 by simp
  then have "\<exists>s'. process url_parse_sample getPlainQuery processor_sample ((), ?s) = Inr ((), s') \<and>
                 baseUrl (req s') = JStr ''null//null''"
    by (rule process_fails_iff_a_call_throws
          [where parse = url_parse_sample and plainQuery = getPlainQuery, THEN conjunct2,
           rule_format])
  with a1 a2 a3 show ?thesis by (intro conjI)
qed

text \<open>
  Claim C4 as stated fails: the string \<open>abc\<close> has no protocol and no host, and its
  assembly succeeds; a URL whose user-info part is not valid percent-encoding fails
  with the parser's \<open>URIError\<close>; and a request without a URL fails with \<open>TypeError\<close>.
\<close>

theorem process_counterexample:
  "(case process url_parse_sample getPlainQuery processor_sample ((), incoming sample_state_abc) of
      Inl e \<Rightarrow> None
    | Inr (t, s') \<Rightarrow> Some (url (req s'), path (req s'), baseUrl (req s')))
     = Some (''abc?name=bolt'', JStr ''abc'', JStr ''null//null'') \<and>
   (case process url_parse_sample getPlainQuery processor_sample
           ((), incoming (sample_state\<lparr>req := sample_request\<lparr>url := ''http://%E0%A4%A@example.com/''\<rparr>\<rparr>)) of
      Inl e \<Rightarrow> Some e
    | Inr r \<Rightarrow> None)
     = Some URIError \<and>
   (case process url_parse_sample getPlainQuery processor_sample
           ((), with_req sample_state (with_url sample_request JUndefined)) of
      Inl e \<Rightarrow> Some e
    | Inr r \<Rightarrow> None)
     = Some TypeError"
  by code_simp

subsection \<open>Path and base URL of the canonical request\<close>

text \<open>
  Claim C9. Whenever \<open>process\<close> returns a request, its \<open>path\<close> and \<open>baseUrl\<close> are the
  path name and the protocol and host that \<open>url.parse\<close> finds in the URL as it stands
  right after the base-URL test: before \<open>setPathParams\<close> and \<open>setQueryParams\<close> run.
  The path parameters and the query parameters do not enter.
\<close>

theorem process_path_before_substitution:
  assumes "process parse plainQuery processor ts = Inr (t', s')"
  shows "\<exists>s0 u p. prepare processor ts = Inr (t', s0) \<and> url (req s0) = JStr u \<and>
             parse (url_with_base (cfg s0) u) = Inr p \<and>
             path (req s') = nullable (pathname p) \<and>
             baseUrl (req s')
               = JStr (template_string (protocol p) @ ''//'' @ template_string (host p))"
proof (rule process_InrD [OF assms])
  fix s0 u p
  assume "prepare processor ts = Inr (t', s0)" and "url (req s0) = JStr u"
    and "parse (url_with_base (cfg s0) u) = Inr p"
    and "path (req s') = nullable (pathname p)"
    and "baseUrl (req s')
           = JStr (template_string (protocol p) @ ''//'' @ template_string (host p))"
  then show ?thesis by (intro exI conjI)
qed

theorem process_path_before_substitution_witness:
  "(case process url_parse_sample getPlainQuery processor_sample ((), incoming sample_state) of
      Inl e \<Rightarrow> None
    | Inr (t, s') \<Rightarrow> Some (url (req s'), path (req s'), baseUrl (req s')))
     = Some (''http://localhost:3000/api/users/7?name=bolt'',
             JStr ''/api/users/%7Bid%7D'', JStr ''http://localhost:3000'')"
proof -
  let ?s = "incoming sample_state"
  have a1: "prepare processor_sample ((), ?s) = Inr ((), ?s)"
    by (simp add: prepare_def processor_sample_def)
  have a2: "url (req ?s) = JStr ''/api/users/{id}''"
    by (simp add: incoming_def sample_state_def sample_request_def)
  have a3: "url_parse_sample (url_with_base (cfg ?s) ''/api/users/{id}'')
             = Inr \<lparr>protocol = Some ''http:'', host = Some ''localhost:3000'',
                    pathname = Some ''/api/users/%7Bid%7D''\<rparr>"
    by (simp add: url_parse_sample_def url_with_base_def startsWith_def incoming_def
        sample_state_def sample_config_def)
  have a5: "\<forall>form e'. multiPartFormData (req ?s) = Some form \<longrightarrow> getBuffer form \<noteq> Inl e'"
    by (simp add: incoming_def sample_state_def sample_request_def)
  from process_succeeds [where parse = url_parse_sample and q = getPlainQuery, OF a1 a2 a3 a5]
  obtain s' where
    s': "process url_parse_sample getPlainQuery processor_sample ((), ?s) = Inr ((), s')" ..
  from process_path_before_substitution [OF s'] obtain s0 u p where
    f1: "prepare processor_sample ((), ?s) = Inr ((), s0)" and f2: "url (req s0) = JStr u"
    and f3: "url_parse_sample (url_with_base (cfg s0) u) = Inr p"
    and f4: "path (req s') = nullable (pathname p)"
    and f5: "baseUrl (req s')
               = JStr (template_string (protocol p) @ ''//'' @ template_string (host p))"
    by blast
  from f1 a1 have e0: "s0 = ?s" by simp
  with f2 a2 have eu: "u = ''/api/users/{id}''" by simp
  from f3 a3 have "p = \<lparr>protocol = Some ''http:'', host = Some ''localhost:3000'',
                    pathname = Some ''/api/users/%7Bid%7D''\<rparr>"
    unfolding e0 eu by simp
  with f4 f5 have "path (req s') = JStr ''/api/users/%7Bid%7D'' \<and>
        baseUrl (req s') = JStr ''http://localhost:3000''"
    by (simp add: nullable_def template_string_def)
  moreover have "(case process url_parse_sample getPlainQuery processor_sample ((), ?s) of
      Inl e \<Rightarrow> None | Inr (t, s') \<Rightarrow> Some (url (req s')))
     = Some ''http://localhost:3000/api/users/7?name=bolt''"
    by code_simp
  ultimately show ?thesis using s' by simp
qed

subsection \<open>Default timeout\<close>

lemma process_timeout:
  assumes "process parse plainQuery processor ts = Inr (t', s')"
  shows "\<exists>s0. prepare processor ts = Inr (t', s0) \<and>
              timeout (req s') =
                (if truthy (timeout (req s0)) then timeout (req s0)
                 else JNum (config_timeout (cfg s0)))"
proof (rule process_InrD [OF assms])
  fix s0
  assume "prepare processor ts = Inr (t', s0)"
    and "timeout (req s') = (if truthy (timeout (req s0)) then timeout (req s0)
                             else JNum (config_timeout (cfg s0)))"
  then show ?thesis by (intro exI conjI)
qed

text \<open>
  Claim C1 does not hold of the code. Line 19 tests the request's timeout for
  truthiness, so a request whose timeout was set to 0 gets the default instead of
  keeping its value; with the default 3000:
\<close>

theorem process_timeout_zero:
  "(case process url_parse_sample getPlainQuery processor_sample
           ((), incoming (sample_state\<lparr>req := sample_request\<lparr>timeout := JNum 0\<rparr>\<rparr>)) of
      Inl e \<Rightarrow> None
    | Inr (t, s') \<Rightarrow> Some (timeout (req s')))
     = Some (JNum 3000)"
  by code_simp

subsection \<open>Header objects\<close>

lemma map_of_own_keys: "(map_of ob k = None) = (k \<notin> set (own_keys ob))"
  by (simp add: own_keys_def map_of_eq_None_iff)

lemma js_in_own: "map_of ob k = Some v \<Longrightarrow> js_in k ob"
  using map_of_own_keys [of ob k] by (simp add: js_in_def)

lemma proto_js_in: "js_in ''__proto__'' ob"
  by (simp add: js_in_def Object_prototype_names_def)

lemma map_of_js_put:
  "map_of (js_put ob p v) k =
     (if k = p \<and> (p \<noteq> ''__proto__'' \<or> p \<in> set (own_keys ob)) then Some v else map_of ob k)"
  by (auto simp: js_put_def update_conv')

lemma own_keys_js_put:
  "set (own_keys (js_put ob p v)) =
     (if p = ''__proto__'' \<and> p \<notin> set (own_keys ob) then set (own_keys ob)
      else insert p (set (own_keys ob)))"
  by (auto simp: js_put_def own_keys_def dom_update)

lemma js_in_js_put:
  "\<not> js_in p ob \<Longrightarrow> js_in k (js_put ob p v) = (k = p \<or> js_in k ob)"
  using proto_js_in [of ob] by (auto simp: js_in_def own_keys_js_put)


lemma add_default_header_defaults [simp]:
  "default_headers (add_default_header a s p) = default_headers s"
proof (cases "a = config_headers (cfg s)")
  case True
  show ?thesis
  proof (cases "map_of (default_headers s) p")
    case None
    then show ?thesis by (simp add: add_default_header_def)
  next
    case (Some v)
    then have "js_in p (heap s a)"
      using True js_in_own [of "heap s a" p v] by (simp add: default_headers_def)
    then show ?thesis by (simp add: add_default_header_def)
  qed
next
  case False
  then show ?thesis by (simp add: default_headers_def)
qed

lemma add_default_header_lookup:
  "map_of (heap (add_default_header a s p) a) k =
     (if k = p \<and> \<not> js_in p (heap s a) \<and> map_of (default_headers s) p \<noteq> None
      then map_of (default_headers s) p else map_of (heap s a) k)"
  using proto_js_in [of "heap s a"]
  by (auto simp: add_default_header_def map_of_js_put split: option.splits)

lemma add_default_header_js_in:
  "js_in k (heap (add_default_header a s p) a) =
     (js_in k (heap s a) \<or> (k = p \<and> map_of (default_headers s) p \<noteq> None))"
  by (auto simp: add_default_header_def js_in_js_put split: option.splits)

lemma foldl_add_default_header_defaults [simp]:
  "default_headers (foldl (add_default_header a) s ks) = default_headers s"
  by (induction ks arbitrary: s) simp_all

lemma foldl_add_default_header_lookup:
  "map_of (heap (foldl (add_default_header a) s ks) a) k =
     (if k \<in> set ks \<and> \<not> js_in k (heap s a) \<and> map_of (default_headers s) k \<noteq> None
      then map_of (default_headers s) k else map_of (heap s a) k)"
proof (induction ks arbitrary: s)
  case Nil
  then show ?case by simp
next
  case (Cons p ks)
  show ?case
    by (auto simp: Cons.IH add_default_header_lookup add_default_header_js_in)
qed

lemma copy_header_lookup:
  "map_of (copy_header src dst p) k =
     (if k = p \<and> map_of src p \<noteq> None \<and> (p \<noteq> ''__proto__'' \<or> p \<in> set (own_keys dst))
      then map_of src p else map_of dst k)"
  by (auto simp: copy_header_def map_of_js_put split: option.splits)

lemma copy_header_proto_own:
  "(''__proto__'' \<in> set (own_keys (copy_header src dst p))) = (''__proto__'' \<in> set (own_keys dst))"
  by (auto simp: copy_header_def own_keys_js_put split: option.splits)

lemma foldl_copy_header_lookup:
  "map_of (foldl (copy_header src) dst ks) k =
     (if k \<in> set ks \<and> map_of src k \<noteq> None \<and> (k \<noteq> ''__proto__'' \<or> k \<in> set (own_keys dst))
      then map_of src k else map_of dst k)"
proof (induction ks arbitrary: dst)
  case Nil
  then show ?case by simp
next
  case (Cons p ks)
  show ?case
    by (auto simp: Cons.IH copy_header_lookup copy_header_proto_own)
qed

lemma setHeaders_no_defaults:
  "own_keys (default_headers s) = [] \<Longrightarrow> setHeaders s = s"
  by (simp add: setHeaders_def)

lemma setHeaders_fresh:
  assumes "own_keys (default_headers s) \<noteq> []" "headers (req s) = None"
  shows "setHeaders s =
           foldl (add_default_header (nxt s))
             (s\<lparr>heap := (heap s)(nxt s := []), nxt := Suc (nxt s),
                 req := (req s)\<lparr>headers := Some (nxt s)\<rparr>\<rparr>)
             (own_keys (default_headers
                (s\<lparr>heap := (heap s)(nxt s := []), nxt := Suc (nxt s),
                    req := (req s)\<lparr>headers := Some (nxt s)\<rparr>\<rparr>)))"
  using assms by (simp add: setHeaders_def alloc_def Let_def)

lemma setHeaders_present:
  assumes "own_keys (default_headers s) \<noteq> []" "headers (req s) = Some a"
  shows "setHeaders s = foldl (add_default_header a) s (own_keys (default_headers s))"
  using assms by (simp add: setHeaders_def Let_def)

lemma setHeaders_lookup:
  assumes "config_headers (cfg s) < nxt s"
  shows "map_of (request_headers (setHeaders s)) k =
           (if map_of (default_headers s) k \<noteq> None \<and> \<not> js_in k (request_headers s)
            then map_of (default_headers s) k else map_of (request_headers s) k)"
proof (cases "own_keys (default_headers s) = []")
  case True
  then have "map_of (default_headers s) k = None"
    by (simp add: map_of_own_keys)
  then show ?thesis using True by (simp add: setHeaders_no_defaults)
next
  case False
  show ?thesis
  proof (cases "headers (req s)")
    case None
    let ?s1 = "s\<lparr>heap := (heap s)(nxt s := []), nxt := Suc (nxt s),
                  req := (req s)\<lparr>headers := Some (nxt s)\<rparr>\<rparr>"
    have d: "default_headers ?s1 = default_headers s"
      using assms by (simp add: default_headers_def)
    have h: "heap ?s1 (nxt s) = []" by simp
    have "request_headers (setHeaders s)
            = heap (foldl (add_default_header (nxt s)) ?s1 (own_keys (default_headers s))) (nxt s)"
      by (simp add: setHeaders_fresh [OF False None] d request_headers_def)
    then show ?thesis
      using None
      by (simp add: foldl_add_default_header_lookup d h request_headers_def map_of_own_keys)
  next
    case (Some a)
    have "request_headers (setHeaders s)
            = heap (foldl (add_default_header a) s (own_keys (default_headers s))) a"
      by (simp add: setHeaders_present [OF False Some] request_headers_def Some)
    then show ?thesis
      using Some
      by (simp add: foldl_add_default_header_lookup request_headers_def map_of_own_keys)
  qed
qed

text \<open>
  Claim C5. The defaults object being an allocated object, after \<open>setHeaders\<close>: every
  header of the request keeps its value, so a header that the specification declared is
  never overwritten by a default of the same key (keys are compared as strings,
  case-sensitively); a header that is new in the request is a default whose key was
  not among the request's own headers; and every default whose key is not \<open>in\<close> the
  request's header object is added.
\<close>

theorem setHeaders_precedence:
  assumes "config_headers (cfg s) < nxt s"
  shows "(\<forall>k v. map_of (request_headers s) k = Some v \<longrightarrow>
                 map_of (request_headers (setHeaders s)) k = Some v) \<and>
         (\<forall>k v. map_of (request_headers (setHeaders s)) k = Some v \<and>
                 map_of (request_headers s) k \<noteq> Some v \<longrightarrow>
                 map_of (default_headers s) k = Some v \<and>
                 k \<notin> set (own_keys (request_headers s))) \<and>
         (\<forall>k v. map_of (default_headers s) k = Some v \<and> \<not> js_in k (request_headers s) \<longrightarrow>
                 map_of (request_headers (setHeaders s)) k = Some v)"
proof (intro conjI allI impI)
  fix k v
  assume "map_of (request_headers s) k = Some v"
  then show "map_of (request_headers (setHeaders s)) k = Some v"
    using js_in_own [of "request_headers s" k v]
    by (simp add: setHeaders_lookup [OF assms])
next
  fix k v
  assume a: "map_of (request_headers (setHeaders s)) k = Some v \<and>
             map_of (request_headers s) k \<noteq> Some v"
  then have c: "map_of (default_headers s) k \<noteq> None \<and> \<not> js_in k (request_headers s)"
    by (simp add: setHeaders_lookup [OF assms] split: if_splits)
  with a show "map_of (default_headers s) k = Some v"
    by (simp add: setHeaders_lookup [OF assms])
  from c show "k \<notin> set (own_keys (request_headers s))"
    by (simp add: js_in_def)
next
  fix k v
  assume "map_of (default_headers s) k = Some v \<and> \<not> js_in k (request_headers s)"
  then show "map_of (request_headers (setHeaders s)) k = Some v"
    by (simp add: setHeaders_lookup [OF assms])
qed

theorem setHeaders_precedence_witness:
  "config_headers (cfg sample_state) < nxt sample_state \<and>
   map_of (request_headers sample_state) ''content-type'' = Some ''text/plain'' \<and>
   map_of (request_headers (setHeaders sample_state)) ''content-type'' = Some ''text/plain'' \<and>
   map_of (default_headers sample_state) ''Authorization'' = Some ''Basic xxxxx'' \<and>
   \<not> js_in ''Authorization'' (request_headers sample_state) \<and>
   map_of (request_headers (setHeaders sample_state)) ''Authorization'' = Some ''Basic xxxxx'' \<and>
   ''Authorization'' \<notin> set (own_keys (request_headers sample_state))"
proof -
  have w: "config_headers (cfg sample_state) < nxt sample_state"
    by (simp add: sample_state_def sample_config_def)
  note t = setHeaders_precedence [OF w]
  have h: "request_headers sample_state = [(''content-type'', ''text/plain''), (''Accept'', ''*'')]"
    by (simp add: request_headers_def sample_state_def sample_request_def sample_heap_def)
  have d: "default_headers sample_state
             = [(''Authorization'', ''Basic xxxxx''), (''content-type'', ''application/json'')]"
    by (simp add: default_headers_def sample_state_def sample_config_def sample_heap_def)
  have c: "map_of (request_headers sample_state) ''content-type'' = Some ''text/plain''"
    by (simp add: h)
  have c': "map_of (request_headers (setHeaders sample_state)) ''content-type'' = Some ''text/plain''"
    by (rule t [THEN conjunct1, rule_format, OF c])
  have a: "map_of (default_headers sample_state) ''Authorization'' = Some ''Basic xxxxx'' \<and>
           \<not> js_in ''Authorization'' (request_headers sample_state)"
    by (simp add: h d js_in_def own_keys_def Object_prototype_names_def)
  have a': "map_of (request_headers (setHeaders sample_state)) ''Authorization'' = Some ''Basic xxxxx''"
    by (rule t [THEN conjunct2, THEN conjunct2, rule_format, OF a])
  have n: "map_of (request_headers sample_state) ''Authorization'' \<noteq> Some ''Basic xxxxx''"
    by (simp add: h)
  have "map_of (default_headers sample_state) ''Authorization'' = Some ''Basic xxxxx'' \<and>
        ''Authorization'' \<notin> set (own_keys (request_headers sample_state))"
    by (rule t [THEN conjunct2, THEN conjunct1, rule_format, OF conjI [OF a' n]])
  then show ?thesis using w c c' a a' by simp
qed

subsection \<open>Multipart form data\<close>

lemma setMultiPartFormData_absent:
  "multiPartFormData (req s) = None \<Longrightarrow> setMultiPartFormData s = Inr s"
  by (simp add: setMultiPartFormData_def)

lemma setMultiPartFormData_throws:
  assumes "multiPartFormData (req s) = Some form" "getBuffer form = Inl e"
  shows "setMultiPartFormData s = Inl e"
  using assms by (simp add: setMultiPartFormData_def)

lemma setMultiPartFormData_fresh:
  assumes "multiPartFormData (req s) = Some form" "getBuffer form = Inr b"
    "headers (req s) = None"
  shows "setMultiPartFormData s =
           Inr (s\<lparr>heap := (heap s)(nxt s := getHeaders form), nxt := Suc (nxt s),
                   req := (req s)\<lparr>data := JBuffer b, headers := Some (nxt s),
                                    multiPartFormData := None\<rparr>\<rparr>)"
  using assms by (simp add: setMultiPartFormData_def alloc_def Let_def)

lemma setMultiPartFormData_present:
  assumes "multiPartFormData (req s) = Some form" "getBuffer form = Inr b"
    "headers (req s) = Some a"
  shows "setMultiPartFormData s =
           Inr (s\<lparr>heap := (heap s)(a := foldl (copy_header (getHeaders form)) (heap s a)
                                            (own_keys (getHeaders form))),
                   req := (req s)\<lparr>data := JBuffer b, multiPartFormData := None\<rparr>\<rparr>)"
  using assms by (simp add: setMultiPartFormData_def Let_def)

lemma foldl_copy_header_all:
  "map_of (foldl (copy_header src) dst (own_keys src)) k =
     (if map_of src k \<noteq> None \<and> (k \<noteq> ''__proto__'' \<or> k \<in> set (own_keys dst))
      then map_of src k else map_of dst k)"
proof (cases "map_of src k")
  case None
  then show ?thesis by (simp add: foldl_copy_header_lookup)
next
  case (Some v)
  then have "k \<in> set (own_keys src)"
    using map_of_own_keys [of src k] by simp
  then show ?thesis by (simp add: foldl_copy_header_lookup)
qed

text \<open>
  Claim C7, as amended. For a request with a multipart form: if \<open>getBuffer()\<close> throws,
  the step fails with that exception. Otherwise the request's \<open>data\<close> is the buffer
  that the form serialises to; every header that the form derives (the content type
  with its boundary among them) is assigned under its exact key, so a header of the
  request with that very key is overwritten; every header of the request under
  another key, a content type in another spelling included, is kept as it was; and
  the field \<open>_multiPartFormData\<close> is gone. (The key \<open>__proto__\<close> is left out: an
  assignment to it is not an assignment of a header.)
\<close>

theorem setMultiPartFormData_by_exact_key:
  assumes "multiPartFormData (req s) = Some form"
  shows "(\<forall>e. getBuffer form = Inl e \<longrightarrow> setMultiPartFormData s = Inl e) \<and>
         (\<forall>b. getBuffer form = Inr b \<longrightarrow>
            (\<exists>s'. setMultiPartFormData s = Inr s' \<and>
               data (req s') = JBuffer b \<and>
               multiPartFormData (req s') = None \<and>
               (\<forall>k v. map_of (getHeaders form) k = Some v \<and> k \<noteq> ''__proto__'' \<longrightarrow>
                      map_of (request_headers s') k = Some v) \<and>
               (\<forall>k. map_of (getHeaders form) k = None \<longrightarrow>
                    map_of (request_headers s') k = map_of (request_headers s) k)))"
proof (intro conjI allI impI)
  fix e
  assume "getBuffer form = Inl e"
  then show "setMultiPartFormData s = Inl e"
    by (rule setMultiPartFormData_throws [OF assms])
next
  fix b
  assume b: "getBuffer form = Inr b"
  show "\<exists>s'. setMultiPartFormData s = Inr s' \<and>
               data (req s') = JBuffer b \<and>
               multiPartFormData (req s') = None \<and>
               (\<forall>k v. map_of (getHeaders form) k = Some v \<and> k \<noteq> ''__proto__'' \<longrightarrow>
                      map_of (request_headers s') k = Some v) \<and>
               (\<forall>k. map_of (getHeaders form) k = None \<longrightarrow>
                    map_of (request_headers s') k = map_of (request_headers s) k)"
  proof (cases "headers (req s)")
    case None
    show ?thesis
      by (simp add: setMultiPartFormData_fresh [OF assms b None] request_headers_def None)
  next
    case (Some a)
    show ?thesis
      by (simp add: setMultiPartFormData_present [OF assms b Some] request_headers_def Some
          foldl_copy_header_all)
  qed
qed

theorem setMultiPartFormData_by_exact_key_witness:
  "multiPartFormData (req sample_state_form_capitals) = Some sample_form \<and>
   getBuffer sample_form = Inr ''--b Content-Disposition: form-data; name=x 1 --b--'' \<and>
   (\<exists>s'. setMultiPartFormData sample_state_form_capitals = Inr s' \<and>
      data (req s') = JBuffer ''--b Content-Disposition: form-data; name=x 1 --b--'' \<and>
      multiPartFormData (req s') = None \<and>
      map_of (request_headers s') ''content-type'' = Some ''multipart/form-data; boundary=b'' \<and>
      map_of (request_headers s') ''Content-Type'' = Some ''application/json'') \<and>
   multiPartFormData (req sample_state_form_stream) = Some sample_form_stream \<and>
   getBuffer sample_form_stream = Inl TypeError \<and>
   setMultiPartFormData sample_state_form_stream = Inl TypeError"
proof -
  have f': "multiPartFormData (req sample_state_form_stream) = Some sample_form_stream"
    by (simp add: sample_state_form_stream_def)
  have g': "getBuffer sample_form_stream = Inl TypeError"
    by (simp add: sample_form_stream_def)
  have t': "setMultiPartFormData sample_state_form_stream = Inl TypeError"
    by (rule setMultiPartFormData_by_exact_key [OF f', THEN conjunct1, rule_format, OF g'])
  let ?s = sample_state_form_capitals
  let ?b = "''--b Content-Disposition: form-data; name=x 1 --b--''"
  have f: "multiPartFormData (req ?s) = Some sample_form"
    by (simp add: sample_state_form_capitals_def sample_state_form_def)
  have g: "getBuffer sample_form = Inr ?b"
    by (simp add: sample_form_def)
  have h: "request_headers ?s = [(''Content-Type'', ''application/json'')]"
    by (simp add: request_headers_def sample_state_form_capitals_def sample_state_form_def
        sample_request_def)
  from setMultiPartFormData_by_exact_key [OF f, THEN conjunct2, rule_format, OF g]
  obtain s' where r: "setMultiPartFormData ?s = Inr s'"
    and d: "data (req s') = JBuffer ?b" and m: "multiPartFormData (req s') = None"
    and o: "\<forall>k v. map_of (getHeaders sample_form) k = Some v \<and> k \<noteq> ''__proto__'' \<longrightarrow>
                  map_of (request_headers s') k = Some v"
    and k: "\<forall>k. map_of (getHeaders sample_form) k = None \<longrightarrow>
                map_of (request_headers s') k = map_of (request_headers ?s) k"
    by blast
  have c: "map_of (getHeaders sample_form) ''content-type''
             = Some ''multipart/form-data; boundary=b'' \<and> ''content-type'' \<noteq> ''__proto__''"
    by (simp add: sample_form_def)
  have c': "map_of (request_headers s') ''content-type'' = Some ''multipart/form-data; boundary=b''"
    by (rule o [rule_format, OF c])
  have a: "map_of (getHeaders sample_form) ''Content-Type'' = None"
    by (simp add: sample_form_def)
  have "map_of (request_headers s') ''Content-Type'' = map_of (request_headers ?s) ''Content-Type''"
    by (rule k [rule_format, OF a])
  then have a': "map_of (request_headers s') ''Content-Type'' = Some ''application/json''"
    by (simp add: h)
  from r d m c' a' have "\<exists>s'. setMultiPartFormData ?s = Inr s' \<and>
      data (req s') = JBuffer ?b \<and> multiPartFormData (req s') = None \<and>
      map_of (request_headers s') ''content-type'' = Some ''multipart/form-data; boundary=b'' \<and>
      map_of (request_headers s') ''Content-Type'' = Some ''application/json''"
    by (intro exI conjI)
  with f g f' g' t' show ?thesis by (intro conjI)
qed

text \<open>
  Claim C7 as stated fails: a content type that the request carries under the key
  \<open>Content-Type\<close> is not overwritten; afterwards the request has both headers.
\<close>

theorem setMultiPartFormData_counterexample:
  "(case setMultiPartFormData sample_state_form_capitals of
      Inl e \<Rightarrow> None
    | Inr s' \<Rightarrow> Some (request_headers s'))
     = Some [(''Content-Type'', ''application/json''),
             (''content-type'', ''multipart/form-data; boundary=b'')]"
  by code_simp

subsection \<open>What is written\<close>

lemma steps_keep_heap:
  "heap (setPathParams s) = heap s" "nxt (setPathParams s) = nxt s"
  "headers (req (setPathParams s)) = headers (req s)"
  "heap (setQueryParams q s) = heap s" "nxt (setQueryParams q s) = nxt s"
  "headers (req (setQueryParams q s)) = headers (req s)"
  "heap (setBody t) = heap t" "nxt (setBody t) = nxt t"
  "headers (req (setBody t)) = headers (req t)"
  "heap (setFollowRedirects t) = heap t" "nxt (setFollowRedirects t) = nxt t"
  "headers (req (setFollowRedirects t)) = headers (req t)"
  by (simp_all add: setPathParams_def setQueryParams_def setBody_def setFollowRedirects_def
      Let_def split: option.splits)

lemma only_own_headers_written_same:
  assumes "cfg s' = cfg s" "heap s' = heap s" "nxt s' = nxt s"
    "headers (req s') = headers (req s)" "only_own_headers_written s0 s"
  shows "only_own_headers_written s0 s'"
  using assms by (simp add: only_own_headers_written_def)

lemma only_own_headers_written_steps:
  assumes "only_own_headers_written s0 s"
  shows "only_own_headers_written s0 (setPathParams s)"
    and "only_own_headers_written s0 (setQueryParams q s)"
  by (rule only_own_headers_written_same [OF _ _ _ _ assms]; simp add: steps_keep_heap)+

lemma only_own_headers_written_steps':
  assumes "only_own_headers_written s0 t"
  shows "only_own_headers_written s0 (setBody t)"
    and "only_own_headers_written s0 (setFollowRedirects t)"
  by (rule only_own_headers_written_same [OF _ _ _ _ assms]; simp add: steps_keep_heap)+

lemma only_own_headers_written_setBaseUrl:
  assumes "setBaseUrl parse s0 = Inr s1"
  shows "only_own_headers_written s0 s1"
  using assms by (auto simp: setBaseUrl_Inr only_own_headers_written_def)

lemma only_own_headers_written_setHeaders:
  assumes "only_own_headers_written s0 s"
  shows "only_own_headers_written s0 (setHeaders s)"
proof (cases "own_keys (default_headers s) = []")
  case True
  then show ?thesis using assms by (simp add: setHeaders_no_defaults)
next
  case False
  show ?thesis
  proof (cases "headers (req s)")
    case None
    have "headers (req s0) = None \<or> (\<exists>b. nxt s0 \<le> b \<and> headers (req s0) \<noteq> Some b)"
      using assms None by (auto simp: only_own_headers_written_def)
    then show ?thesis
      using assms None
      by (auto simp: setHeaders_fresh [OF False None] only_own_headers_written_def)
  next
    case (Some a)
    have a: "\<forall>a'. a' < nxt s0 \<and> headers (req s0) \<noteq> Some a' \<longrightarrow> a' \<noteq> a"
      using assms Some by (auto simp: only_own_headers_written_def)
    show ?thesis
      using assms Some a
      by (auto simp: setHeaders_present [OF False Some] only_own_headers_written_def)
  qed
qed

lemma only_own_headers_written_setMultiPartFormData:
  assumes "only_own_headers_written s0 s" "setMultiPartFormData s = Inr s'"
  shows "only_own_headers_written s0 s'"
proof (cases "multiPartFormData (req s)")
  case None
  then show ?thesis using assms by (simp add: setMultiPartFormData_absent)
next
  case (Some form)
  then obtain b where b: "getBuffer form = Inr b"
    using assms(2) by (cases "getBuffer form") (simp_all add: setMultiPartFormData_throws)
  show ?thesis
  proof (cases "headers (req s)")
    case None
    show ?thesis
      using assms None
      by (auto simp: setMultiPartFormData_fresh [OF Some b None] only_own_headers_written_def)
  next
    case (Some a)
    have a: "\<forall>a'. a' < nxt s0 \<and> headers (req s0) \<noteq> Some a' \<longrightarrow> a' \<noteq> a"
      using assms(1) Some by (auto simp: only_own_headers_written_def)
    show ?thesis
      using assms Some a
      by (auto simp: setMultiPartFormData_present [OF \<open>multiPartFormData (req s) = Some form\<close> b Some]
          only_own_headers_written_def)
  qed
qed

lemma process_only_own_headers_written:
  assumes "process parse q pr ts = Inr (t', s')"
  obtains s0 where "prepare pr ts = Inr (t', s0)" "only_own_headers_written s0 s'"
proof -
  from assms obtain s0 s1 s6 where
    a: "prepare pr ts = Inr (t', s0)" and b: "setBaseUrl parse s0 = Inr s1"
    and m: "setMultiPartFormData
              (setBody (setHeaders (setQueryParams q (setPathParams s1)))) = Inr s6"
    and s': "s' = (setFollowRedirects s6)\<lparr>req := (req (setFollowRedirects s6))\<lparr>timeout :=
               (if truthy (timeout (req (setFollowRedirects s6)))
                then timeout (req (setFollowRedirects s6))
                else JNum (config_timeout (cfg (setFollowRedirects s6))))\<rparr>\<rparr>"
    unfolding process_Inr by blast
  have 1: "only_own_headers_written s0 s1"
    by (rule only_own_headers_written_setBaseUrl [OF b])
  have 3: "only_own_headers_written s0 (setQueryParams q (setPathParams s1))"
    by (intro only_own_headers_written_steps 1)
  have 5: "only_own_headers_written s0
             (setBody (setHeaders (setQueryParams q (setPathParams s1))))"
    by (intro only_own_headers_written_steps' only_own_headers_written_setHeaders 3)
  have 6: "only_own_headers_written s0 s6"
    by (rule only_own_headers_written_setMultiPartFormData [OF 5 m])
  have 7: "only_own_headers_written s0 (setFollowRedirects s6)"
    by (intro only_own_headers_written_steps' 6)
  have "only_own_headers_written s0 s'"
    by (rule only_own_headers_written_same [OF _ _ _ _ 7]) (simp_all add: s')
  with a show thesis by (rule that)
qed

text \<open>
  Claim C8, as amended. Take the state that the data processor hands on in line 11.
  From there a run of \<open>process\<close> that returns has left \<open>config.request\<close> as it was:
  the base URL, the default timeout, the reference to the default headers and the
  follow-redirects flag. On the heap it has left every object that existed as it was,
  except the request's own header object; so the default headers object holds the same
  properties as before whenever it is an existing object other than the request's
  header object. What lines 9 to 11 do to the data processor's tables is not covered.
\<close>

theorem process_writes_only_the_request:
  assumes "process parse plainQuery processor ts = Inr (t', s')"
  shows "\<exists>s0. prepare processor ts = Inr (t', s0) \<and>
              cfg s' = cfg s0 \<and>
              (\<forall>a. a < nxt s0 \<and> headers (req s0) \<noteq> Some a \<longrightarrow> heap s' a = heap s0 a) \<and>
              (defaults_apart s0 \<longrightarrow> default_headers s' = default_headers s0)"
proof (rule process_only_own_headers_written [OF assms])
  fix s0
  assume a: "prepare processor ts = Inr (t', s0)" and w: "only_own_headers_written s0 s'"
  from w have c: "cfg s' = cfg s0"
    and h: "\<forall>a. a < nxt s0 \<and> headers (req s0) \<noteq> Some a \<longrightarrow> heap s' a = heap s0 a"
    by (simp_all add: only_own_headers_written_def)
  have "defaults_apart s0 \<longrightarrow> default_headers s' = default_headers s0"
    using c h by (simp add: defaults_apart_def default_headers_def)
  with a c h show ?thesis by (intro exI conjI)
qed

theorem process_writes_only_the_request_witness:
  "defaults_apart (incoming sample_state_form) \<and>
   0 < nxt (incoming sample_state_form) \<and> headers (req (incoming sample_state_form)) \<noteq> Some 0 \<and>
   (case process url_parse_sample getPlainQuery processor_sample
           ((), incoming sample_state_form) of
      Inl e \<Rightarrow> False
    | Inr (t, s') \<Rightarrow>
        cfg s' = sample_config \<and>
        heap s' 0 = [(''Authorization'', ''Basic xxxxx''), (''content-type'', ''application/json'')] \<and>
        default_headers s'
          = [(''Authorization'', ''Basic xxxxx''), (''content-type'', ''application/json'')])"
proof -
  let ?s = "incoming sample_state_form"
  have a1: "prepare processor_sample ((), ?s) = Inr ((), ?s)"
    by (simp add: prepare_def processor_sample_def)
  have a2: "url (req ?s) = JStr ''/api/users/{id}''"
    by (simp add: incoming_def sample_state_form_def sample_state_def sample_request_def)
  have a3: "url_parse_sample (url_with_base (cfg ?s) ''/api/users/{id}'')
             = Inr \<lparr>protocol = Some ''http:'', host = Some ''localhost:3000'',
                    pathname = Some ''/api/users/%7Bid%7D''\<rparr>"
    by (simp add: url_parse_sample_def url_with_base_def startsWith_def incoming_def
        sample_state_form_def sample_state_def sample_config_def)
  have a5: "\<forall>form e'. multiPartFormData (req ?s) = Some form \<longrightarrow> getBuffer form \<noteq> Inl e'"
    by (simp add: incoming_def sample_state_form_def sample_form_def)
  have d: "defaults_apart ?s"
    by (simp add: defaults_apart_def incoming_def sample_state_form_def sample_state_def
        sample_config_def sample_request_def)
  have n: "0 < nxt ?s \<and> headers (req ?s) \<noteq> Some 0"
    by (simp add: incoming_def sample_state_form_def sample_state_def sample_request_def)
  have c0: "cfg ?s = sample_config"
    by (simp add: incoming_def sample_state_form_def sample_state_def)
  have h0: "heap ?s 0
              = [(''Authorization'', ''Basic xxxxx''), (''content-type'', ''application/json'')]"
    by (simp add: incoming_def sample_state_form_def sample_state_def sample_heap_def)
  have d0: "default_headers ?s
              = [(''Authorization'', ''Basic xxxxx''), (''content-type'', ''application/json'')]"
    by (simp add: default_headers_def c0 h0 sample_config_def)
  from process_succeeds [where parse = url_parse_sample and q = getPlainQuery, OF a1 a2 a3 a5]
  obtain s' where
    s': "process url_parse_sample getPlainQuery processor_sample ((), ?s) = Inr ((), s')" ..
  from process_writes_only_the_request [OF s'] obtain s0 where
    f1: "prepare processor_sample ((), ?s) = Inr ((), s0)" and f2: "cfg s' = cfg s0"
    and f3: "\<forall>a. a < nxt s0 \<and> headers (req s0) \<noteq> Some a \<longrightarrow> heap s' a = heap s0 a"
    and f4: "defaults_apart s0 \<longrightarrow> default_headers s' = default_headers s0"
    by blast
  from f1 a1 have e0: "s0 = ?s" by simp
  have r1: "cfg s' = sample_config" using f2 c0 by (simp add: e0)
  have "heap s' 0 = heap ?s 0" using f3 n unfolding e0 by blast
  then have r2: "heap s' 0
      = [(''Authorization'', ''Basic xxxxx''), (''content-type'', ''application/json'')]"
    by (simp add: h0)
  have "default_headers s' = default_headers ?s" using f4 d unfolding e0 by blast
  then have r3: "default_headers s'
      = [(''Authorization'', ''Basic xxxxx''), (''content-type'', ''application/json'')]"
    by (simp add: d0)
  show ?thesis using d n s' r1 r2 r3 by simp
qed

text \<open>
  Claim C8 as stated fails: when the request's header object is the default headers
  object itself, the headers of the multipart form are written into the defaults.
\<close>

theorem process_shared_headers_counterexample:
  "map_of (default_headers (incoming sample_state_form_shared)) ''content-type''
     = Some ''application/json'' \<and>
   (case process url_parse_sample getPlainQuery processor_sample
           ((), incoming sample_state_form_shared) of
      Inl e \<Rightarrow> None
    | Inr (t, s') \<Rightarrow> Some (map_of (default_headers s') ''content-type''))
     = Some (Some ''multipart/form-data; boundary=b'')"
  by code_simp

end
